theory Spec2Isabelle
  imports Complex_Main
begin

section \<open>Symbolic tensors of the layer library\<close>

text \<open>
  \<^verbatim>\<open>layers.py\<close> builds a Keras computation graph. A symbolic tensor is modelled by the
  expression of layer calls that produced it. Shapes leave the batch axis out, as
  \<^verbatim>\<open>Input(shape=...)\<close> does: a feature map has shape (height, width, channels), the latent
  vector has a feature count. Sizes and counts are natural numbers.
\<close>

datatype error =
    UnboundLocalError string
  | ValueError
  | AssertionError
  | TypeError
  | AttributeError string
  | NotADirectoryError

type_synonym shape = "nat \<times> nat \<times> nat"

datatype vec =
    LatentInput string nat
  | Dense nat string vec

datatype node =
    Input string nat nat nat
  | ZeroPadding2D nat nat nat nat string node
  | Conv2D nat nat nat bool "string option" node
  | Lambda_crop_right string node
  | Lambda_shift_down string node
  | Add string node node
  | Multiply string node node
  | Reshape nat nat nat string vec
  | Lambda_merge_latent string node node
  | Lambda_Wf nat string node
  | Lambda_Wg nat string node
  | Lambda_tanh string node
  | Lambda_sigmoid string node
  | Activation_relu string node

datatype sym = T4 node | T2 vec

text \<open>
  Shape inference, as the library does it when a layer is called. A valid convolution of a
  length-\<open>n\<close> axis with a length-\<open>k\<close> window has \<open>n - k + 1\<close> positions and is rejected
  when the window is longer than the axis; a window of length 0, which mask A asks for
  when the first kernel has width 1, is taken as the empty sum it is. A convolution of a
  map without channels is rejected (the depth of its filter would be 0). Merge layers and the
  broadcasting sum of \<^verbatim>\<open>x[0]+x[1]\<close> accept two axes that are equal or of which one has
  length 1.
\<close>

fun vec_dim :: "vec \<Rightarrow> nat" where
  "vec_dim (LatentInput _ d) = d"
| "vec_dim (Dense units _ _) = units"

definition conv_length :: "nat \<Rightarrow> nat \<Rightarrow> nat option" where
  "conv_length n k = (if k \<le> n then Some (n - k + 1) else None)"

definition broadcast_dim :: "nat \<Rightarrow> nat \<Rightarrow> nat option" where
  "broadcast_dim i j =
     (if i = 1 then Some j else if j = 1 then Some i
      else if i = j then Some i else None)"

definition broadcast_shape :: "shape option \<Rightarrow> shape option \<Rightarrow> shape option" where
  "broadcast_shape sa sb =
     (case (sa, sb) of
        (Some (ha, wa, ca), Some (hb, wb, cb)) \<Rightarrow>
          (case (broadcast_dim ha hb, broadcast_dim wa wb, broadcast_dim ca cb) of
             (Some hh, Some ww, Some cc) \<Rightarrow> Some (hh, ww, cc)
           | _ \<Rightarrow> None)
      | _ \<Rightarrow> None)"

fun shape_of :: "node \<Rightarrow> shape option" where
  "shape_of (Input _ hh ww cc) = Some (hh, ww, cc)"
| "shape_of (ZeroPadding2D t b l r _ x) =
     (case shape_of x of None \<Rightarrow> None
      | Some (hh, ww, cc) \<Rightarrow> Some (t + hh + b, l + ww + r, cc))"
| "shape_of (Conv2D filters kh kw _ _ x) =
     (case shape_of x of None \<Rightarrow> None
      | Some (hh, ww, cc) \<Rightarrow>
          if cc = 0 then None
          else (case (conv_length hh kh, conv_length ww kw) of
                  (Some hh', Some ww') \<Rightarrow> Some (hh', ww', filters)
                | _ \<Rightarrow> None))"
| "shape_of (Lambda_crop_right _ x) =
     (case shape_of x of None \<Rightarrow> None
      | Some (hh, ww, cc) \<Rightarrow> Some (hh, ww - 1, cc))"
| "shape_of (Lambda_shift_down _ x) =
     (case shape_of x of None \<Rightarrow> None
      | Some (hh, ww, cc) \<Rightarrow> Some (min hh (1 + hh), ww, cc))"
| "shape_of (Add _ a b) = broadcast_shape (shape_of a) (shape_of b)"
| "shape_of (Multiply _ a b) = broadcast_shape (shape_of a) (shape_of b)"
| "shape_of (Reshape a b c _ v) = (if a * b * c = vec_dim v then Some (a, b, c) else None)"
| "shape_of (Lambda_merge_latent _ a b) = broadcast_shape (shape_of a) (shape_of b)"
| "shape_of (Lambda_Wf n _ x) =
     (case shape_of x of None \<Rightarrow> None
      | Some (hh, ww, cc) \<Rightarrow> Some (hh, ww, min n cc))"
| "shape_of (Lambda_Wg n _ x) =
     (case shape_of x of None \<Rightarrow> None
      | Some (hh, ww, cc) \<Rightarrow> Some (hh, ww, cc - n))"
| "shape_of (Lambda_tanh _ x) = shape_of x"
| "shape_of (Lambda_sigmoid _ x) = shape_of x"
| "shape_of (Activation_relu _ x) = shape_of x"

definition the_shape :: "node \<Rightarrow> shape" where
  "the_shape x = (case shape_of x of None \<Rightarrow> (0, 0, 0) | Some s \<Rightarrow> s)"

section \<open>Graph construction: layer calls, failures and the order of both\<close>

text \<open>
  A step runs on a state and either returns a value or raises; in both cases what it has
  already done to the state stays done. For the layer builders the state is the list of
  layer calls made so far.
\<close>

type_synonym ('s, 'a) run = "'s \<Rightarrow> (error + 'a) \<times> 's"

type_synonym 'a build = "(sym list, 'a) run"

definition ret :: "'a \<Rightarrow> ('s, 'a) run" where
  "ret v = (\<lambda>st. (Inr v, st))"

definition raise :: "error \<Rightarrow> ('s, 'a) run" where
  "raise e = (\<lambda>st. (Inl e, st))"

definition bind :: "('s, 'a) run \<Rightarrow> ('a \<Rightarrow> ('s, 'b) run) \<Rightarrow> ('s, 'b) run" where
  "bind m f = (\<lambda>st. case m st of
                 (Inl e, st') \<Rightarrow> (Inl e, st')
               | (Inr v, st') \<Rightarrow> f v st')"

definition call_layer :: "node \<Rightarrow> node build" where
  "call_layer n = (\<lambda>calls. case shape_of n of
                     None \<Rightarrow> (Inl ValueError, calls)
                   | Some _ \<Rightarrow> (Inr n, calls @ [T4 n]))"

text \<open>A dense layer refuses an input without features.\<close>

definition call_dense :: "nat \<Rightarrow> string \<Rightarrow> vec \<Rightarrow> vec build" where
  "call_dense units name v =
     (\<lambda>calls. if vec_dim v = 0 then (Inl AssertionError, calls)
              else (Inr (Dense units name v), calls @ [T2 (Dense units name v)]))"

definition local_var :: "string \<Rightarrow> 'a option \<Rightarrow> ('s, 'a) run" where
  "local_var name v = (case v of None \<Rightarrow> raise (UnboundLocalError name) | Some t \<Rightarrow> ret t)"

text \<open>Python's \<^verbatim>\<open>str\<close> of a non-negative integer.\<close>

definition digit_char :: "nat \<Rightarrow> char" where
  "digit_char d = ''0123456789'' ! d"

fun str :: "nat \<Rightarrow> string" where
  "str n = (if n < 10 then [digit_char n] else str (n div 10) @ [digit_char (n mod 10)])"

declare str.simps [simp del]

section \<open>The activation units\<close>

text \<open>\<^verbatim>\<open>GatedCNN\<close> and \<^verbatim>\<open>ReLUCNN\<close> store the same five constructor arguments.\<close>

record activation_unit =
  unit_nb_filters :: nat
  unit_stack_name :: string
  unit_v_map :: "node option"
  unit_h :: "vec option"
  unit_crop_right :: bool

definition stack_tag_of :: "string \<Rightarrow> string option" where
  "stack_tag_of stack_name =
     (if stack_name = ''vertical'' then Some ''v''
      else if stack_name = ''horizontal'' then Some ''h''
      else None)"

definition GatedCNN_call :: "activation_unit \<Rightarrow> node \<Rightarrow> nat \<Rightarrow> node build" where
  "GatedCNN_call self xW layer_idx =
     (let stack_tag = stack_tag_of (unit_stack_name self) in
      bind (if unit_crop_right self
            then call_layer (Lambda_crop_right (''h_crop_right_'' @ str layer_idx) xW)
            else ret xW) (\<lambda>xW.
      bind (case unit_v_map self of
              Some v \<Rightarrow> call_layer (Add (''h_merge_v_'' @ str layer_idx) xW v)
            | None \<Rightarrow> ret xW) (\<lambda>xW.
      bind (case unit_h self of
              Some lat \<Rightarrow>
                bind (local_var ''stack_tag'' stack_tag) (\<lambda>tag.
                bind (call_dense (2 * unit_nb_filters self)
                        (tag @ ''_dense_latent_'' @ str layer_idx) lat) (\<lambda>hV.
                bind (local_var ''stack_tag'' stack_tag) (\<lambda>tag.
                bind (call_layer (Reshape 1 1 (2 * unit_nb_filters self)
                        (tag @ ''_reshape_latent_'' @ str layer_idx) hV)) (\<lambda>hV.
                bind (local_var ''stack_tag'' stack_tag) (\<lambda>tag.
                call_layer (Lambda_merge_latent
                        (tag @ ''_merge_latent_'' @ str layer_idx) xW hV))))))
            | None \<Rightarrow> ret xW) (\<lambda>xW.
      bind (local_var ''stack_tag'' stack_tag) (\<lambda>tag.
      bind (call_layer (Lambda_Wf (unit_nb_filters self)
              (tag @ ''_Wf_'' @ str layer_idx) xW)) (\<lambda>xW_f.
      bind (call_layer (Lambda_Wg (unit_nb_filters self)
              (tag @ ''_Wg_'' @ str layer_idx) xW)) (\<lambda>xW_g.
      bind (call_layer (Lambda_tanh (tag @ ''_tanh_'' @ str layer_idx) xW_f)) (\<lambda>xW_f.
      bind (call_layer (Lambda_sigmoid (tag @ ''_sigmoid_'' @ str layer_idx) xW_g)) (\<lambda>xW_g.
      call_layer (Multiply (tag @ ''_merge_gate_'' @ str layer_idx) xW_f xW_g))))))))))"

definition ReLUCNN_call :: "activation_unit \<Rightarrow> node \<Rightarrow> nat \<Rightarrow> node build" where
  "ReLUCNN_call self xW layer_idx =
     (let stack_tag = stack_tag_of (unit_stack_name self) in
      bind (if unit_crop_right self
            then call_layer (Lambda_crop_right (''h_crop_right_'' @ str layer_idx) xW)
            else ret xW) (\<lambda>xW.
      bind (case unit_v_map self of
              Some v \<Rightarrow> call_layer (Add (''h_merge_v_'' @ str layer_idx) xW v)
            | None \<Rightarrow> ret xW) (\<lambda>xW.
      bind (case unit_h self of
              Some lat \<Rightarrow>
                bind (local_var ''stack_tag'' stack_tag) (\<lambda>tag.
                bind (call_dense (unit_nb_filters self)
                        (tag @ ''_dense_latent_'' @ str layer_idx) lat) (\<lambda>hV.
                bind (local_var ''stack_tag'' stack_tag) (\<lambda>tag.
                bind (call_layer (Reshape 1 1 (unit_nb_filters self)
                        (tag @ ''_reshape_latent_'' @ str layer_idx) hV)) (\<lambda>hV.
                bind (local_var ''stack_tag'' stack_tag) (\<lambda>tag.
                call_layer (Lambda_merge_latent
                        (tag @ ''_merge_latent_'' @ str layer_idx) xW hV))))))
            | None \<Rightarrow> ret xW) (\<lambda>xW.
      bind (local_var ''stack_tag'' stack_tag) (\<lambda>tag.
      call_layer (Activation_relu (tag @ ''_relu_latent_'' @ str layer_idx) xW))))))"

section \<open>The model object and its builders\<close>

record pixelcnn =
  input_size :: "nat \<times> nat"
  nb_channels :: nat
  conditional :: bool
  latent_dim :: nat
  nb_pixelcnn_layers :: nat
  nb_filters :: nat
  gated :: bool
  filter_size_1st :: "nat \<times> nat"
  filter_size :: "nat \<times> nat"
  optimizer :: string
  h :: "vec option"
  predicted :: "node option"
  model :: "(sym list \<times> node) option"

definition my_nb_filters :: "pixelcnn \<Rightarrow> nat" where
  "my_nb_filters self = (if gated self then 2 * nb_filters self else nb_filters self)"

definition masked_conv ::
  "pixelcnn \<Rightarrow> node \<Rightarrow> nat \<times> nat \<Rightarrow> string \<Rightarrow> nat \<Rightarrow> string \<Rightarrow> node build" where
  "masked_conv self x fs stack_name layer_idx mask_type =
     bind (if stack_name = ''vertical'' then
             bind (call_layer (ZeroPadding2D (fst fs div 2) 0 (snd fs div 2) (snd fs div 2)
                     (''v_pad_'' @ str layer_idx) x)) (\<lambda>res.
             bind (call_layer (Conv2D (my_nb_filters self) (fst fs div 2 + 1) (snd fs) False
                     (Some (''v_conv_'' @ str layer_idx)) res)) (\<lambda>res.
             ret (Some res)))
           else if stack_name = ''horizontal'' then
             bind (call_layer (ZeroPadding2D 0 0 (snd fs div 2) 0
                     (''h_pad_'' @ str layer_idx) x)) (\<lambda>res.
             bind (if mask_type = ''A'' then
                     call_layer (Conv2D (my_nb_filters self) 1 (snd fs div 2) False
                       (Some (''h_conv_'' @ str layer_idx)) res)
                   else
                     call_layer (Conv2D (my_nb_filters self) 1 (snd fs div 2 + 1) False
                       (Some (''h_conv_'' @ str layer_idx)) res)) (\<lambda>res.
             ret (Some res)))
           else ret None) (\<lambda>res.
     local_var ''res'' res)"

definition feed_v_map :: "pixelcnn \<Rightarrow> node \<Rightarrow> nat \<Rightarrow> node build" where
  "feed_v_map self x layer_idx =
     bind (call_layer (Lambda_shift_down (''v_shift_down'' @ str layer_idx) x)) (\<lambda>x.
     call_layer (Conv2D (my_nb_filters self) 1 1 False
       (Some (''v_1x1_conv_'' @ str layer_idx)) x))"


text \<open>
  The local variables of \<^verbatim>\<open>_build_layers\<close> that one layer assigns. The loop reads
  \<^verbatim>\<open>v_stack_out\<close> and \<^verbatim>\<open>h_stack_out\<close> of the layer before.
\<close>

record layer_locals =
  v_masked_map :: node
  v_feed_map :: node
  v_stack_out :: node
  h_masked_map :: node
  h_stack_out :: node

definition first_layer :: "pixelcnn \<Rightarrow> node \<Rightarrow> layer_locals build" where
  "first_layer self x =
     bind (masked_conv self x (filter_size_1st self) ''vertical'' 0 ''B'') (\<lambda>v_masked_map.
     bind (feed_v_map self v_masked_map 0) (\<lambda>v_feed_map.
     bind (if gated self then
             GatedCNN_call \<lparr>unit_nb_filters = nb_filters self, unit_stack_name = ''vertical'',
               unit_v_map = None, unit_h = h self, unit_crop_right = False\<rparr> v_masked_map 0
           else
             ReLUCNN_call \<lparr>unit_nb_filters = nb_filters self, unit_stack_name = ''vertical'',
               unit_v_map = None, unit_h = h self, unit_crop_right = False\<rparr> v_masked_map 0)
       (\<lambda>v_stack_out.
     bind (masked_conv self x (filter_size_1st self) ''horizontal'' 0 ''A'') (\<lambda>h_masked_map.
     bind (if gated self then
             GatedCNN_call \<lparr>unit_nb_filters = nb_filters self, unit_stack_name = ''horizontal'',
               unit_v_map = Some v_feed_map, unit_h = h self, unit_crop_right = True\<rparr>
               h_masked_map 0
           else
             ReLUCNN_call \<lparr>unit_nb_filters = nb_filters self, unit_stack_name = ''horizontal'',
               unit_v_map = Some v_feed_map, unit_h = h self, unit_crop_right = True\<rparr>
               h_masked_map 0)
       (\<lambda>h_stack_out.
     bind (call_layer (Conv2D (nb_filters self) 1 1 False (Some ''h_1x1_conv_0'') h_stack_out))
       (\<lambda>h_stack_out.
     ret \<lparr>v_masked_map = v_masked_map, v_feed_map = v_feed_map, v_stack_out = v_stack_out,
          h_masked_map = h_masked_map, h_stack_out = h_stack_out\<rparr>))))))"

definition next_layer :: "pixelcnn \<Rightarrow> nat \<Rightarrow> layer_locals \<Rightarrow> layer_locals build" where
  "next_layer self i prev =
     bind (masked_conv self (v_stack_out prev) (filter_size self) ''vertical'' i ''B'')
       (\<lambda>v_masked_map.
     bind (feed_v_map self v_masked_map i) (\<lambda>v_feed_map.
     bind (if gated self then
             GatedCNN_call \<lparr>unit_nb_filters = nb_filters self, unit_stack_name = ''vertical'',
               unit_v_map = None, unit_h = h self, unit_crop_right = False\<rparr> v_masked_map i
           else
             ReLUCNN_call \<lparr>unit_nb_filters = nb_filters self, unit_stack_name = ''vertical'',
               unit_v_map = None, unit_h = h self, unit_crop_right = False\<rparr> v_masked_map i)
       (\<lambda>v_stack_out.
     (let h_stack_out_prev = h_stack_out prev in
     bind (masked_conv self (h_stack_out prev) (filter_size self) ''horizontal'' i ''B'')
       (\<lambda>h_masked_map.
     bind (if gated self then
             GatedCNN_call \<lparr>unit_nb_filters = nb_filters self, unit_stack_name = ''horizontal'',
               unit_v_map = Some v_feed_map, unit_h = h self, unit_crop_right = False\<rparr>
               h_masked_map i
           else
             ReLUCNN_call \<lparr>unit_nb_filters = nb_filters self, unit_stack_name = ''horizontal'',
               unit_v_map = Some v_feed_map, unit_h = h self, unit_crop_right = False\<rparr>
               h_masked_map i)
       (\<lambda>h_stack_out.
     bind (call_layer (Conv2D (nb_filters self) 1 1 False
             (Some (''h_1x1_conv_'' @ str i)) h_stack_out))
       (\<lambda>h_stack_out.
     bind (call_layer (Add (''h_residual_'' @ str i) h_stack_out h_stack_out_prev))
       (\<lambda>h_stack_out.
     ret \<lparr>v_masked_map = v_masked_map, v_feed_map = v_feed_map, v_stack_out = v_stack_out,
          h_masked_map = h_masked_map, h_stack_out = h_stack_out\<rparr>))))))))"

fun layers_loop :: "pixelcnn \<Rightarrow> nat list \<Rightarrow> layer_locals \<Rightarrow> layer_locals build" where
  "layers_loop self [] st = ret st"
| "layers_loop self (i # rest) st = bind (next_layer self i st) (layers_loop self rest)"

fun penultimate_convs :: "pixelcnn \<Rightarrow> nat list \<Rightarrow> node \<Rightarrow> node build" where
  "penultimate_convs self [] hs = ret hs"
| "penultimate_convs self (i # rest) hs =
     bind (call_layer (Conv2D (nb_filters self) 1 1 True
             (Some (''penultimate_convs'' @ str i)) hs))
       (penultimate_convs self rest)"

section \<open>The process the model is built in\<close>

text \<open>
  What construction can reach besides the graph: the file system, which maps a path below
  the working directory (its list of components) to what is there; the backend's image
  ordering; the process-wide counter from which a \<^verbatim>\<open>Conv2D\<close> layer built without a name
  takes its name; and the layer calls made so far. (The layer library keeps such a counter
  for every kind of layer; all other layers of the graph are built with a name. The two
  unnamed layers that \<^verbatim>\<open>_shift_down\<close> builds when its \<^verbatim>\<open>Lambda\<close> layer runs it are
  no layers of the graph, which has the named \<^verbatim>\<open>Lambda\<close> layer in their place; their
  counters are left out.)
\<close>

type_synonym path = "string list"

datatype entry = File | Dir

record world =
  fs :: "path \<Rightarrow> entry option"
  image_dim_ordering :: string
  conv2d_uid :: nat
  layer_calls :: "sym list"

type_synonym 'a action = "(world, 'a) run"

definition lift :: "'a build \<Rightarrow> 'a action" where
  "lift m = (\<lambda>w. case m (layer_calls w) of (r, calls') \<Rightarrow> (r, w\<lparr>layer_calls := calls'\<rparr>))"

definition conv2d_auto_name :: "string action" where
  "conv2d_auto_name =
     (\<lambda>w. (Inr (''conv2d_'' @ str (conv2d_uid w + 1)), w\<lparr>conv2d_uid := conv2d_uid w + 1\<rparr>))"

text \<open>
  \<^verbatim>\<open>compile\<close> looks the optimizer up by its name, ignoring case; a name it does not know is
  refused, and \<^verbatim>\<open>tfoptimizer\<close> cannot be built from its name alone.
\<close>

definition lower_char :: "char \<Rightarrow> char" where
  "lower_char c =
     (case map_of (zip ''ABCDEFGHIJKLMNOPQRSTUVWXYZ'' ''abcdefghijklmnopqrstuvwxyz'') c of
        Some d \<Rightarrow> d | None \<Rightarrow> c)"

definition optimizer_names :: "string list" where
  "optimizer_names =
     [''sgd'', ''rmsprop'', ''adagrad'', ''adadelta'', ''adam'', ''adamax'', ''nadam'']"

definition compile :: "string \<Rightarrow> unit action" where
  "compile identifier =
     (let name = map lower_char identifier in
      if name \<in> set optimizer_names
      then ret ()
      else if name = ''tfoptimizer'' then raise TypeError
      else raise ValueError)"

section \<open>Building the whole graph\<close>

definition build_layers :: "pixelcnn \<Rightarrow> node \<Rightarrow> vec option \<Rightarrow> (pixelcnn \<times> node) action" where
  "build_layers self0 x lat =
     (let self = self0\<lparr>h := lat\<rparr> in
      bind (lift (first_layer self x)) (\<lambda>st.
      bind (lift (layers_loop self [1..<nb_pixelcnn_layers self] st)) (\<lambda>st.
      bind (lift (penultimate_convs self [0..<2] (h_stack_out st))) (\<lambda>h_stack_out.
      bind conv2d_auto_name (\<lambda>name.
      bind (lift (call_layer (Conv2D (nb_channels self) 1 1 False (Some name) h_stack_out)))
        (\<lambda>res.
      ret (self, res)))))))"

definition build_model :: "pixelcnn \<Rightarrow> pixelcnn action" where
  "build_model self =
     (let input_img = Input ''input_image'' (fst (input_size self)) (snd (input_size self))
                        (nb_channels self) in
      bind (if conditional self then
              (let latent_vector = LatentInput ''latent_vector'' (latent_dim self) in
               bind (build_layers self input_img (Some latent_vector)) (\<lambda>(self, res).
               ret (self\<lparr>predicted := Some res,
                         model := Some ([T4 input_img, T2 latent_vector], res)\<rparr>)))
            else
              bind (build_layers self input_img None) (\<lambda>(self, res).
              ret (self\<lparr>predicted := Some res, model := Some ([T4 input_img], res)\<rparr>)))
        (\<lambda>self.
      bind (compile (optimizer self)) (\<lambda>_.
      ret self)))"

section \<open>The constructor\<close>






section \<open>Running a built graph\<close>

text \<open>
  The executor's arithmetic is a parameter: the results below hold for any element type
  and any choice of sum, product and activation functions, the reals among them. A value
  of a feature map is read at (sample, row, column, channel); a value of the latent vector
  at (sample, feature). The trained parameters are looked up by layer name.
\<close>

record 'a arith =
  a_zero :: 'a
  a_add :: "'a \<Rightarrow> 'a \<Rightarrow> 'a"
  a_mul :: "'a \<Rightarrow> 'a \<Rightarrow> 'a"
  a_tanh :: "'a \<Rightarrow> 'a"
  a_sigmoid :: "'a \<Rightarrow> 'a"
  a_relu :: "'a \<Rightarrow> 'a"

definition real_arith :: "real arith" where
  "real_arith = \<lparr>a_zero = 0, a_add = (+), a_mul = (*), a_tanh = tanh,
                  a_sigmoid = (\<lambda>v. 1 / (1 + exp (- v))), a_relu = max 0\<rparr>"

record 'a params =
  conv_kernel :: "string option \<Rightarrow> nat \<Rightarrow> nat \<Rightarrow> nat \<Rightarrow> nat \<Rightarrow> 'a"
  conv_bias :: "string option \<Rightarrow> nat \<Rightarrow> 'a"
  dense_kernel :: "string \<Rightarrow> nat \<Rightarrow> nat \<Rightarrow> 'a"
  dense_bias :: "string \<Rightarrow> nat \<Rightarrow> 'a"

type_synonym 'a tens = "nat \<Rightarrow> nat \<Rightarrow> nat \<Rightarrow> nat \<Rightarrow> 'a"

type_synonym 'a mat = "nat \<Rightarrow> nat \<Rightarrow> 'a"

definition sum_terms :: "'a arith \<Rightarrow> 'a list \<Rightarrow> 'a" where
  "sum_terms A xs = foldr (a_add A) xs (a_zero A)"

definition dense :: "'a arith \<Rightarrow> (nat \<Rightarrow> nat \<Rightarrow> 'a) \<Rightarrow> (nat \<Rightarrow> 'a) \<Rightarrow> nat \<Rightarrow> 'a mat \<Rightarrow> 'a mat" where
  "dense A K bias n_in v =
     (\<lambda>b j. a_add A (sum_terms A (map (\<lambda>k. a_mul A (v b k) (K k j)) [0..<n_in])) (bias j))"

definition conv2d ::
  "'a arith \<Rightarrow> (nat \<Rightarrow> nat \<Rightarrow> nat \<Rightarrow> nat \<Rightarrow> 'a) \<Rightarrow> (nat \<Rightarrow> 'a) \<Rightarrow> nat \<Rightarrow> nat \<Rightarrow> nat
     \<Rightarrow> 'a tens \<Rightarrow> 'a tens" where
  "conv2d A K bias kh kw n_in t =
     (\<lambda>b r c j. a_add A (sum_terms A
        (concat (map (\<lambda>di. concat (map (\<lambda>dj.
           map (\<lambda>k. a_mul A (t b (r + di) (c + dj) k) (K di dj k j)) [0..<n_in])
           [0..<kw])) [0..<kh]))) (bias j))"

definition zero_padding :: "'a arith \<Rightarrow> nat \<Rightarrow> nat \<Rightarrow> shape \<Rightarrow> 'a tens \<Rightarrow> 'a tens" where
  "zero_padding A ptop pleft s t =
     (\<lambda>b r c k. case s of (hh, ww, cc) \<Rightarrow>
        if ptop \<le> r \<and> r < ptop + hh \<and> pleft \<le> c \<and> c < pleft + ww
        then t b (r - ptop) (c - pleft) k else a_zero A)"

definition broadcast_index :: "nat \<Rightarrow> nat \<Rightarrow> nat" where
  "broadcast_index d i = (if d = 1 then 0 else i)"

definition broadcast2 ::
  "('a \<Rightarrow> 'a \<Rightarrow> 'a) \<Rightarrow> shape \<Rightarrow> 'a tens \<Rightarrow> shape \<Rightarrow> 'a tens \<Rightarrow> 'a tens" where
  "broadcast2 f sa ta sb tb =
     (\<lambda>b r c k. case (sa, sb) of ((ha, wa, ca), (hb, wb, cb)) \<Rightarrow>
        f (ta b (broadcast_index ha r) (broadcast_index wa c) (broadcast_index ca k))
          (tb b (broadcast_index hb r) (broadcast_index wb c) (broadcast_index cb k)))"

primrec veval :: "'a arith \<Rightarrow> 'a params \<Rightarrow> 'a mat \<Rightarrow> vec \<Rightarrow> 'a mat" where
  "veval A P lat (LatentInput _ _) = lat"
| "veval A P lat (Dense units name v) =
     dense A (dense_kernel P name) (dense_bias P name) (vec_dim v) (veval A P lat v)"

primrec eval :: "'a arith \<Rightarrow> 'a params \<Rightarrow> 'a tens \<Rightarrow> 'a mat \<Rightarrow> node \<Rightarrow> 'a tens" where
  "eval A P x lat (Input _ _ _ _) = x"
| "eval A P x lat (ZeroPadding2D t b l r _ n) =
     zero_padding A t l (the_shape n) (eval A P x lat n)"
| "eval A P x lat (Conv2D filters kh kw act name n) =
     (let y = conv2d A (conv_kernel P name) (conv_bias P name) kh kw
                (snd (snd (the_shape n))) (eval A P x lat n)
      in if act then (\<lambda>b r c k. a_relu A (y b r c k)) else y)"
| "eval A P x lat (Lambda_crop_right _ n) = eval A P x lat n"
| "eval A P x lat (Lambda_shift_down _ n) =
     zero_padding A 1 0 (the_shape n) (eval A P x lat n)"
| "eval A P x lat (Add _ n m) =
     broadcast2 (a_add A) (the_shape n) (eval A P x lat n) (the_shape m) (eval A P x lat m)"
| "eval A P x lat (Multiply _ n m) =
     broadcast2 (a_mul A) (the_shape n) (eval A P x lat n) (the_shape m) (eval A P x lat m)"
| "eval A P x lat (Reshape _ _ _ _ v) = (\<lambda>b r c k. veval A P lat v b k)"
| "eval A P x lat (Lambda_merge_latent _ n m) =
     broadcast2 (a_add A) (the_shape n) (eval A P x lat n) (the_shape m) (eval A P x lat m)"
| "eval A P x lat (Lambda_Wf nb _ n) = eval A P x lat n"
| "eval A P x lat (Lambda_Wg nb _ n) = (\<lambda>b r c k. eval A P x lat n b r c (nb + k))"
| "eval A P x lat (Lambda_tanh _ n) = (\<lambda>b r c k. a_tanh A (eval A P x lat n b r c k))"
| "eval A P x lat (Lambda_sigmoid _ n) = (\<lambda>b r c k. a_sigmoid A (eval A P x lat n b r c k))"
| "eval A P x lat (Activation_relu _ n) = (\<lambda>b r c k. a_relu A (eval A P x lat n b r c k))"

section \<open>The inference method\<close>

text \<open>
  \<^verbatim>\<open>predict\<close> is declared a class method, so the name \<^verbatim>\<open>self\<close> in its body is bound to the
  class \<^verbatim>\<open>PixelCNN\<close> whatever object it is called on. The class body defines methods only;
  \<^verbatim>\<open>build_model\<close> stores \<^verbatim>\<open>model\<close> on the instance.
\<close>

datatype receiver = The_class | An_instance pixelcnn

definition getattr_model :: "receiver \<Rightarrow> error + (sym list \<times> node)" where
  "getattr_model r =
     (case r of
        The_class \<Rightarrow> Inl (AttributeError ''model'')
      | An_instance obj \<Rightarrow>
          (case model obj of None \<Rightarrow> Inl (AttributeError ''model'') | Some m \<Rightarrow> Inr m))"

definition model_predict ::
  "'a arith \<Rightarrow> 'a params \<Rightarrow> sym list \<times> node \<Rightarrow> 'a tens \<times> 'a mat \<Rightarrow> nat \<Rightarrow> 'a tens" where
  "model_predict A P m x batch_size = eval A P (fst x) (snd x) (snd m)"

definition predict ::
  "'a arith \<Rightarrow> 'a params \<Rightarrow> pixelcnn \<Rightarrow> 'a tens \<times> 'a mat \<Rightarrow> nat \<Rightarrow> error + 'a tens" where
  "predict A P obj x batch_size =
     (let self = The_class in
      case getattr_model self of
        Inl e \<Rightarrow> Inl e
      | Inr m \<Rightarrow> Inr (model_predict A P m x batch_size))"

section \<open>A small configuration to run things on\<close>

definition example_cfg :: pixelcnn where
  "example_cfg = \<lparr>input_size = (2, 2), nb_channels = 1, conditional = False, latent_dim = 10,
      nb_pixelcnn_layers = 2, nb_filters = 1, gated = True, filter_size_1st = (3, 3),
      filter_size = (3, 3), optimizer = ''adam'', h = None, predicted = None,
      model = None\<rparr>"

text \<open>Parameters, an image and a latent vector over the reals.\<close>

definition example_params :: "real params" where
  "example_params = \<lparr>conv_kernel = (\<lambda>name di dj k j. 1), conv_bias = (\<lambda>name j. 0),
      dense_kernel = (\<lambda>name k j. 1), dense_bias = (\<lambda>name j. 0)\<rparr>"

definition example_img :: "real tens" where
  "example_img = (\<lambda>b r c k. real (2 * r + c))"

definition example_lat :: "real mat" where
  "example_lat = (\<lambda>b k. 0)"

text \<open>
  The node an activation unit has built when it reaches its activation: the input map
  after the optional crop, merge of the vertical feed map and merge of the projected
  latent vector (\<open>units\<close> is the width of the dense layer, \<open>tag\<close> the stack tag).
\<close>

definition pre_activation :: "activation_unit \<Rightarrow> nat \<Rightarrow> string \<Rightarrow> node \<Rightarrow> nat \<Rightarrow> node" where
  "pre_activation u units tag xW i =
     (let x1 = (if unit_crop_right u then Lambda_crop_right (''h_crop_right_'' @ str i) xW
                else xW);
          x2 = (case unit_v_map u of Some v \<Rightarrow> Add (''h_merge_v_'' @ str i) x1 v | None \<Rightarrow> x1)
      in case unit_h u of
           Some lat \<Rightarrow>
             Lambda_merge_latent (tag @ ''_merge_latent_'' @ str i) x2
               (Reshape 1 1 units (tag @ ''_reshape_latent_'' @ str i)
                  (Dense units (tag @ ''_dense_latent_'' @ str i) lat))
         | None \<Rightarrow> x2)"

text \<open>The node an activation unit returns: the gated product, or the ReLU.\<close>

definition activation_node :: "bool \<Rightarrow> activation_unit \<Rightarrow> string \<Rightarrow> node \<Rightarrow> nat \<Rightarrow> node" where
  "activation_node is_gated u tag xW i =
     (if is_gated then
        Multiply (tag @ ''_merge_gate_'' @ str i)
          (Lambda_tanh (tag @ ''_tanh_'' @ str i)
             (Lambda_Wf (unit_nb_filters u) (tag @ ''_Wf_'' @ str i)
                (pre_activation u (2 * unit_nb_filters u) tag xW i)))
          (Lambda_sigmoid (tag @ ''_sigmoid_'' @ str i)
             (Lambda_Wg (unit_nb_filters u) (tag @ ''_Wg_'' @ str i)
                (pre_activation u (2 * unit_nb_filters u) tag xW i)))
      else
        Activation_relu (tag @ ''_relu_latent_'' @ str i)
          (pre_activation u (unit_nb_filters u) tag xW i))"

text \<open>The residual additions among the layer calls: the \<^verbatim>\<open>Add\<close> layers named \<^verbatim>\<open>h_residual_\<close>\<open>i\<close>.\<close>

definition is_residual :: "sym \<Rightarrow> bool" where
  "is_residual op = (case op of T4 (Add name _ _) \<Rightarrow> take 11 name = ''h_residual_'' | _ \<Rightarrow> False)"

definition residual_count :: "sym list \<Rightarrow> nat" where
  "residual_count calls = length (filter is_residual calls)"

text \<open>A world in which an earlier run has left a TensorBoard log behind.\<close>

definition example_world :: world where
  "example_world = \<lparr>fs = (\<lambda>p. if p = [''block_cnn_logs''] then Some Dir
                              else if p = [''block_cnn_logs'', ''events''] then Some File
                              else None),
                     image_dim_ordering = ''th'', conv2d_uid = 0, layer_calls = []\<rparr>"

text \<open>
  The activation unit as the specification words it, on the values of the maps: the
  vertical feed map, when present, is added elementwise; the projected latent vector,
  when present, is added at every position; then the gated variant multiplies the tanh of
  channel \<open>k\<close> by the sigmoid of channel \<open>nb + k\<close>, and the ReLU variant applies ReLU.
\<close>

definition spec_activation_unit ::
  "'a arith \<Rightarrow> bool \<Rightarrow> nat \<Rightarrow> 'a tens \<Rightarrow> 'a tens option \<Rightarrow> 'a mat option \<Rightarrow> 'a tens" where
  "spec_activation_unit A is_gated nb xW feed hV =
     (\<lambda>b r c k.
        let merged = (\<lambda>j.
              let m = (case feed of None \<Rightarrow> xW b r c j
                       | Some v \<Rightarrow> a_add A (xW b r c j) (v b r c j))
              in case hV of None \<Rightarrow> m | Some p \<Rightarrow> a_add A m (p b j))
        in if is_gated then a_mul A (a_tanh A (merged k)) (a_sigmoid A (merged (nb + k)))
           else a_relu A (merged k))"

text \<open>
  Which pixels of the image a value of a map is computed from. \<open>reads_only R F\<close>: the value
  of \<open>F x\<close> at row \<open>r\<close>, column \<open>c\<close> of a sample is the same for two images \<open>x\<close> that agree, in
  that sample, at every position \<open>R\<close> relates to \<open>(r, c)\<close>. The three relations are: the
  rows up to \<open>r\<close>; the rows above \<open>r\<close>; and the positions before \<open>(r, c)\<close> in raster order.
\<close>

definition reads_only :: "(nat \<times> nat \<Rightarrow> nat \<times> nat \<Rightarrow> bool) \<Rightarrow> ('a tens \<Rightarrow> 'a tens) \<Rightarrow> bool" where
  "reads_only R F =
     (\<forall>x x' b r c. (\<forall>r' c' k. R (r, c) (r', c') \<longrightarrow> x b r' c' k = x' b r' c' k)
        \<longrightarrow> (\<forall>k. F x b r c k = F x' b r c k))"

definition rows_upto :: "nat \<times> nat \<Rightarrow> nat \<times> nat \<Rightarrow> bool" where
  "rows_upto p q = (fst q \<le> fst p)"

definition rows_above :: "nat \<times> nat \<Rightarrow> nat \<times> nat \<Rightarrow> bool" where
  "rows_above p q = (fst q < fst p)"

definition raster_before :: "nat \<times> nat \<Rightarrow> nat \<times> nat \<Rightarrow> bool" where
  "raster_before p q = (fst q < fst p \<or> (fst q = fst p \<and> snd q < snd p))"

definition raster_after :: "nat \<times> nat \<Rightarrow> nat \<times> nat \<Rightarrow> bool" where
  "raster_after p q = (fst p < fst q \<or> (fst q = fst p \<and> snd p < snd q))"

definition monotone_reach :: "(nat \<times> nat \<Rightarrow> nat \<times> nat \<Rightarrow> bool) \<Rightarrow> bool" where
  "monotone_reach R = (\<forall>r c r0 c0 q. r0 \<le> r \<longrightarrow> c0 \<le> c \<longrightarrow> R (r0, c0) q \<longrightarrow> R (r, c) q)"

text \<open>The example image with the pixel at row 1, column 1 changed.\<close>

definition example_img_perturbed :: "real tens" where
  "example_img_perturbed = (\<lambda>b r c k. if r = 1 \<and> c = 1 then 100 else example_img b r c k)"

text \<open>
  The horizontal outputs of the layers, read off the last one: a residual addition has the
  output of the layer before as its second operand. \<open>horizontal_outputs\<close> lists them with
  layer 0 first. \<open>residual_chain\<close> says of such a list that entry 0 is the 1 by 1
  projection of layer 0 and that every later entry \<open>i\<close> is the residual addition of the
  1 by 1 projection of layer \<open>i\<close>, whose activation unit works on the mask-B convolution of
  entry \<open>i - 1\<close>, and of entry \<open>i - 1\<close> itself.
\<close>

fun residual_spine :: "node \<Rightarrow> node list" where
  "residual_spine (Add name proj prev) =
     (if take 11 name = ''h_residual_'' then Add name proj prev # residual_spine prev
      else [Add name proj prev])"
| "residual_spine n = [n]"

definition horizontal_outputs :: "node \<Rightarrow> node list" where
  "horizontal_outputs n = rev (residual_spine n)"

definition residual_chain :: "pixelcnn \<Rightarrow> node list \<Rightarrow> bool" where
  "residual_chain self hs =
     ((\<exists>act. hs ! 0 = Conv2D (nb_filters self) 1 1 False (Some ''h_1x1_conv_0'') act)
      \<and> (\<forall>i. 1 \<le> i \<and> i < length hs \<longrightarrow>
            (\<exists>vf. hs ! i =
               Add (''h_residual_'' @ str i)
                 (Conv2D (nb_filters self) 1 1 False (Some (''h_1x1_conv_'' @ str i))
                    (activation_node (gated self)
                       \<lparr>unit_nb_filters = nb_filters self, unit_stack_name = ''horizontal'',
                         unit_v_map = Some vf, unit_h = h self, unit_crop_right = False\<rparr>
                       ''h''
                       (Conv2D (my_nb_filters self) 1 (snd (filter_size self) div 2 + 1) False
                          (Some (''h_conv_'' @ str i))
                          (ZeroPadding2D 0 0 (snd (filter_size self) div 2) 0
                             (''h_pad_'' @ str i) (hs ! (i - 1))))
                       i))
                 (hs ! (i - 1)))))"




section \<open>When construction succeeds, and with which shapes\<close>

lemma bind_Inr: "bind m f s = (Inr y, s') \<longleftrightarrow> (\<exists>v s1. m s = (Inr v, s1) \<and> f v s1 = (Inr y, s'))"
  by (auto simp: bind_def split: prod.splits sum.splits)

lemma ret_Inr: "ret v s = (Inr y, s') \<longleftrightarrow> (y = v \<and> s' = s)"
  by (auto simp: ret_def)

lemma call_layer_Inr:
  "call_layer n s = (Inr y, s') \<longleftrightarrow> (shape_of n \<noteq> None \<and> y = n \<and> s' = s @ [T4 n])"
  by (auto simp: call_layer_def split: option.splits)

lemma call_dense_Inr:
  "call_dense units name v s = (Inr y, s') \<longleftrightarrow>
     (1 \<le> vec_dim v \<and> y = Dense units name v \<and> s' = s @ [T2 (Dense units name v)])"
  by (auto simp: call_dense_def)

lemma lift_Inr:
  "lift m w = (Inr y, w') \<longleftrightarrow>
     (\<exists>calls'. m (layer_calls w) = (Inr y, calls') \<and> w' = w\<lparr>layer_calls := calls'\<rparr>)"
  by (auto simp: lift_def split: prod.splits)

lemma conv2d_auto_name_Inr:
  "conv2d_auto_name w = (Inr y, w') \<longleftrightarrow>
     (y = ''conv2d_'' @ str (conv2d_uid w + 1) \<and> w' = w\<lparr>conv2d_uid := conv2d_uid w + 1\<rparr>)"
  by (auto simp: conv2d_auto_name_def)

lemma compile_Inr:
  "compile name w = (Inr y, w') \<longleftrightarrow> (map lower_char name \<in> set optimizer_names \<and> w' = w)"
  by (auto simp: compile_def Let_def ret_def raise_def)

lemma local_var_Inr: "local_var nm v s = (Inr y, s') \<longleftrightarrow> (v = Some y \<and> s' = s)"
  by (auto simp: local_var_def ret_def raise_def split: option.splits)

lemmas build_Inr = bind_Inr ret_Inr call_layer_Inr call_dense_Inr local_var_Inr

lemma bind_ok: "m s = (Inr v, s1) \<Longrightarrow> bind m f s = f v s1"
  by (simp add: bind_def)

lemma call_layer_ok: "shape_of n = Some sh \<Longrightarrow> call_layer n s = (Inr n, s @ [T4 n])"
  by (simp add: call_layer_def)

lemma masked_conv_vertical_ok:
  assumes "shape_of x = Some (hh, ww, cc)" "1 \<le> hh" "1 \<le> ww" "1 \<le> cc" "odd (snd ksz)"
  shows "\<exists>n s'. masked_conv self x ksz ''vertical'' i mt s = (Inr n, s')
           \<and> shape_of n = Some (hh, ww, my_nb_filters self)"
  using assms
  by (auto simp: masked_conv_def build_Inr conv_length_def elim!: oddE)

lemma masked_conv_horizontal_A_ok:
  assumes "shape_of x = Some (hh, ww, cc)" "1 \<le> hh" "1 \<le> cc"
  shows "\<exists>n s'. masked_conv self x ksz ''horizontal'' i ''A'' s = (Inr n, s')
           \<and> shape_of n = Some (hh, ww + 1, my_nb_filters self)"
  using assms
  by (auto simp: masked_conv_def build_Inr conv_length_def)

lemma masked_conv_horizontal_B_ok:
  assumes "shape_of x = Some (hh, ww, cc)" "1 \<le> hh" "1 \<le> ww" "1 \<le> cc"
  shows "\<exists>n s'. masked_conv self x ksz ''horizontal'' i ''B'' s = (Inr n, s')
           \<and> shape_of n = Some (hh, ww, my_nb_filters self)"
  using assms
  by (auto simp: masked_conv_def build_Inr conv_length_def)

lemma feed_v_map_ok:
  assumes "shape_of x = Some (hh, ww, cc)" "1 \<le> hh" "1 \<le> ww" "1 \<le> cc"
  shows "\<exists>n s'. feed_v_map self x i s = (Inr n, s')
           \<and> shape_of n = Some (hh, ww, my_nb_filters self)"
  using assms
  by (auto simp: feed_v_map_def build_Inr conv_length_def)


lemma broadcast_shape_same [simp]: "broadcast_shape (Some s) (Some s) = Some s"
  by (cases s) (auto simp: broadcast_shape_def broadcast_dim_def)

lemma broadcast_shape_latent [simp]:
  "broadcast_shape (Some (hh, ww, cc)) (Some (Suc 0, Suc 0, cc)) = Some (hh, ww, cc)"
  by (auto simp: broadcast_shape_def broadcast_dim_def)

lemma GatedCNN_call_ok:
  assumes "shape_of xW = Some (hh, ww, 2 * unit_nb_filters u)"
    and "stack_tag_of (unit_stack_name u) \<noteq> None"
    and "\<And>v. unit_v_map u = Some v \<Longrightarrow>
           shape_of v = Some (hh, (if unit_crop_right u then ww - 1 else ww), 2 * unit_nb_filters u)"
    and "\<And>l. unit_h u = Some l \<Longrightarrow> 1 \<le> vec_dim l"
  shows "\<exists>n s'. GatedCNN_call u xW i s = (Inr n, s')
           \<and> shape_of n = Some (hh, (if unit_crop_right u then ww - 1 else ww), unit_nb_filters u)"
  using assms
  by (cases "unit_v_map u"; cases "unit_h u"; cases "unit_crop_right u")
     (auto simp: GatedCNN_call_def build_Inr Let_def)

lemma ReLUCNN_call_ok:
  assumes "shape_of xW = Some (hh, ww, unit_nb_filters u)"
    and "stack_tag_of (unit_stack_name u) \<noteq> None"
    and "\<And>v. unit_v_map u = Some v \<Longrightarrow>
           shape_of v = Some (hh, (if unit_crop_right u then ww - 1 else ww), unit_nb_filters u)"
    and "\<And>l. unit_h u = Some l \<Longrightarrow> 1 \<le> vec_dim l"
  shows "\<exists>n s'. ReLUCNN_call u xW i s = (Inr n, s')
           \<and> shape_of n = Some (hh, (if unit_crop_right u then ww - 1 else ww), unit_nb_filters u)"
  using assms
  by (cases "unit_v_map u"; cases "unit_h u"; cases "unit_crop_right u")
     (auto simp: ReLUCNN_call_def build_Inr Let_def)


lemma unit_call_ok:
  assumes "shape_of xW = Some (hh, ww, my_nb_filters self)"
    and "unit_nb_filters u = nb_filters self"
    and "stack_tag_of (unit_stack_name u) \<noteq> None"
    and "\<And>v. unit_v_map u = Some v \<Longrightarrow>
           shape_of v = Some (hh, (if unit_crop_right u then ww - 1 else ww), my_nb_filters self)"
    and "\<And>l. unit_h u = Some l \<Longrightarrow> 1 \<le> vec_dim l"
  shows "\<exists>n s'. (if gated self then GatedCNN_call u xW i else ReLUCNN_call u xW i) s = (Inr n, s')
           \<and> shape_of n = Some (hh, (if unit_crop_right u then ww - 1 else ww), nb_filters self)"
proof (cases "gated self")
  case True
  then show ?thesis
    using GatedCNN_call_ok [of xW hh ww u i s] assms by (simp add: my_nb_filters_def)
next
  case False
  then show ?thesis
    using ReLUCNN_call_ok [of xW hh ww u i s] assms by (simp add: my_nb_filters_def)
qed

lemma first_layer_ok:
  assumes x: "shape_of x = Some (hh, ww, cc)" and hw: "1 \<le> hh" "1 \<le> ww"
    and cc: "1 \<le> cc" and nb: "1 \<le> nb_filters self"
    and lat: "\<And>l. h self = Some l \<Longrightarrow> 1 \<le> vec_dim l"
    and odd: "odd (snd (filter_size_1st self))"
  shows "\<exists>st s'. first_layer self x s = (Inr st, s')
           \<and> shape_of (v_masked_map st) = Some (hh, ww, my_nb_filters self)
           \<and> shape_of (v_feed_map st) = Some (hh, ww, my_nb_filters self)
           \<and> shape_of (v_stack_out st) = Some (hh, ww, nb_filters self)
           \<and> shape_of (h_masked_map st) = Some (hh, ww + 1, my_nb_filters self)
           \<and> shape_of (h_stack_out st) = Some (hh, ww, nb_filters self)"
proof -
  obtain vm s1 where vm: "masked_conv self x (filter_size_1st self) ''vertical'' 0 ''B'' s = (Inr vm, s1)"
      "shape_of vm = Some (hh, ww, my_nb_filters self)"
    using masked_conv_vertical_ok [OF x hw cc odd] by blast
  have my: "1 \<le> my_nb_filters self" using nb by (simp add: my_nb_filters_def)
  obtain vf s2 where vf: "feed_v_map self vm 0 s1 = (Inr vf, s2)"
      "shape_of vf = Some (hh, ww, my_nb_filters self)"
    using feed_v_map_ok [OF vm(2) hw my] by blast
  let ?uv = "\<lparr>unit_nb_filters = nb_filters self, unit_stack_name = ''vertical'',
               unit_v_map = None, unit_h = h self, unit_crop_right = False\<rparr>"
  obtain vo s3 where vo: "(if gated self then GatedCNN_call ?uv vm 0 else ReLUCNN_call ?uv vm 0) s2 = (Inr vo, s3)"
      "shape_of vo = Some (hh, ww, nb_filters self)"
    using unit_call_ok [OF vm(2), of ?uv 0 s2] lat by (auto simp: stack_tag_of_def)
  obtain hm s4 where hm: "masked_conv self x (filter_size_1st self) ''horizontal'' 0 ''A'' s3 = (Inr hm, s4)"
      "shape_of hm = Some (hh, ww + 1, my_nb_filters self)"
    using masked_conv_horizontal_A_ok [OF x hw(1) cc] by blast
  let ?uh = "\<lparr>unit_nb_filters = nb_filters self, unit_stack_name = ''horizontal'',
               unit_v_map = Some vf, unit_h = h self, unit_crop_right = True\<rparr>"
  obtain ho s5 where ho: "(if gated self then GatedCNN_call ?uh hm 0 else ReLUCNN_call ?uh hm 0) s4 = (Inr ho, s5)"
      "shape_of ho = Some (hh, ww, nb_filters self)"
    using unit_call_ok [OF hm(2), of ?uh 0 s4] vf(2) lat by (auto simp: stack_tag_of_def)
  show ?thesis
    unfolding first_layer_def
    using hw nb by (simp add: bind_def ret_def vm vf vo hm ho call_layer_def conv_length_def)
qed


lemma next_layer_ok:
  assumes v: "shape_of (v_stack_out prev) = Some (hh, ww, nb_filters self)"
    and hp: "shape_of (h_stack_out prev) = Some (hh, ww, nb_filters self)"
    and hw: "1 \<le> hh" "1 \<le> ww"
    and nb: "1 \<le> nb_filters self"
    and lat: "\<And>l. h self = Some l \<Longrightarrow> 1 \<le> vec_dim l"
    and odd: "odd (snd (filter_size self))"
  shows "\<exists>st s'. next_layer self i prev s = (Inr st, s')
           \<and> shape_of (v_stack_out st) = Some (hh, ww, nb_filters self)
           \<and> shape_of (h_stack_out st) = Some (hh, ww, nb_filters self)"
proof -
  obtain vm s1 where vm: "masked_conv self (v_stack_out prev) (filter_size self) ''vertical'' i ''B'' s = (Inr vm, s1)"
      "shape_of vm = Some (hh, ww, my_nb_filters self)"
    using masked_conv_vertical_ok [OF v hw nb odd] by blast
  have my: "1 \<le> my_nb_filters self" using nb by (simp add: my_nb_filters_def)
  obtain vf s2 where vf: "feed_v_map self vm i s1 = (Inr vf, s2)"
      "shape_of vf = Some (hh, ww, my_nb_filters self)"
    using feed_v_map_ok [OF vm(2) hw my] by blast
  let ?uv = "\<lparr>unit_nb_filters = nb_filters self, unit_stack_name = ''vertical'',
               unit_v_map = None, unit_h = h self, unit_crop_right = False\<rparr>"
  obtain vo s3 where vo: "(if gated self then GatedCNN_call ?uv vm i else ReLUCNN_call ?uv vm i) s2 = (Inr vo, s3)"
      "shape_of vo = Some (hh, ww, nb_filters self)"
    using unit_call_ok [OF vm(2), of ?uv i s2] lat by (auto simp: stack_tag_of_def)
  obtain hm s4 where hm: "masked_conv self (h_stack_out prev) (filter_size self) ''horizontal'' i ''B'' s3 = (Inr hm, s4)"
      "shape_of hm = Some (hh, ww, my_nb_filters self)"
    using masked_conv_horizontal_B_ok [OF hp hw nb] by blast
  let ?uh = "\<lparr>unit_nb_filters = nb_filters self, unit_stack_name = ''horizontal'',
               unit_v_map = Some vf, unit_h = h self, unit_crop_right = False\<rparr>"
  obtain ho s5 where ho: "(if gated self then GatedCNN_call ?uh hm i else ReLUCNN_call ?uh hm i) s4 = (Inr ho, s5)"
      "shape_of ho = Some (hh, ww, nb_filters self)"
    using unit_call_ok [OF hm(2), of ?uh i s4] vf(2) lat by (auto simp: stack_tag_of_def)
  show ?thesis
    unfolding next_layer_def
    using hw nb by (simp add: Let_def bind_def ret_def vm vf vo hm ho hp call_layer_def conv_length_def)
qed

lemma layers_loop_ok:
  assumes hw: "1 \<le> hh" "1 \<le> ww" and nb: "1 \<le> nb_filters self"
    and lat: "\<And>l. h self = Some l \<Longrightarrow> 1 \<le> vec_dim l"
    and odd: "odd (snd (filter_size self))"
  shows "shape_of (v_stack_out prev) = Some (hh, ww, nb_filters self) \<Longrightarrow>
         shape_of (h_stack_out prev) = Some (hh, ww, nb_filters self) \<Longrightarrow>
         \<exists>st s'. layers_loop self idxs prev s = (Inr st, s')
           \<and> shape_of (v_stack_out st) = Some (hh, ww, nb_filters self)
           \<and> shape_of (h_stack_out st) = Some (hh, ww, nb_filters self)"
proof (induction idxs arbitrary: prev s)
  case Nil
  then show ?case by (simp add: ret_def)
next
  case (Cons i rest)
  obtain st1 s1 where st1: "next_layer self i prev s = (Inr st1, s1)"
      "shape_of (v_stack_out st1) = Some (hh, ww, nb_filters self)"
      "shape_of (h_stack_out st1) = Some (hh, ww, nb_filters self)"
    using next_layer_ok [OF Cons.prems hw nb lat odd] by blast
  from Cons.IH [OF st1(2,3), of s1] show ?case
    by (simp add: bind_def st1(1))
qed

lemma upt_0_2: "[0..<2] = [0, Suc 0]"
  by (simp add: numeral_2_eq_2)

lemma build_layers_ok:
  assumes x: "shape_of x = Some (hh, ww, cc)" and hw: "1 \<le> hh" "1 \<le> ww"
    and cc: "1 \<le> cc" and nb: "1 \<le> nb_filters self"
    and lat: "\<And>l. lat = Some l \<Longrightarrow> 1 \<le> vec_dim l"
    and odd1: "odd (snd (filter_size_1st self))" and odd: "odd (snd (filter_size self))"
  shows "\<exists>g w'. build_layers self x lat w = (Inr (self\<lparr>h := lat\<rparr>, g), w')
           \<and> shape_of g = Some (hh, ww, nb_channels self)"
proof -
  let ?self = "self\<lparr>h := lat\<rparr>"
  have l: "\<And>l. h ?self = Some l \<Longrightarrow> 1 \<le> vec_dim l" using lat by simp
  have n: "1 \<le> nb_filters ?self" using nb by simp
  obtain st0 s0 where st0: "first_layer ?self x (layer_calls w) = (Inr st0, s0)"
      "shape_of (v_stack_out st0) = Some (hh, ww, nb_filters ?self)"
      "shape_of (h_stack_out st0) = Some (hh, ww, nb_filters ?self)"
    using first_layer_ok [OF x hw cc n l, of "layer_calls w"] odd1 by auto
  obtain st1 s1 where st1: "layers_loop ?self [1..<nb_pixelcnn_layers ?self] st0 s0 = (Inr st1, s1)"
      "shape_of (h_stack_out st1) = Some (hh, ww, nb_filters ?self)"
    using layers_loop_ok [OF hw n l _ st0(2,3), of "[1..<nb_pixelcnn_layers ?self]" s0] odd
    by auto
  show ?thesis
    unfolding build_layers_def Let_def
    using hw nb st0(1) st1
    by (simp add: bind_def ret_def lift_def conv2d_auto_name_def upt_0_2 call_layer_def
          conv_length_def)
qed

lemma build_model_ok:
  assumes hw: "1 \<le> fst (input_size self)" "1 \<le> snd (input_size self)"
    and ch: "1 \<le> nb_channels self" and nb: "1 \<le> nb_filters self"
    and ld: "conditional self \<Longrightarrow> 1 \<le> latent_dim self"
    and opt: "map lower_char (optimizer self) \<in> set optimizer_names"
    and odd1: "odd (snd (filter_size_1st self))" and odd: "odd (snd (filter_size self))"
  shows "\<exists>obj g w'. build_model self w = (Inr obj, w') \<and> predicted obj = Some g
           \<and> model obj \<noteq> None
           \<and> shape_of g = Some (fst (input_size self), snd (input_size self), nb_channels self)"
proof -
  let ?x = "Input ''input_image'' (fst (input_size self)) (snd (input_size self)) (nb_channels self)"
  have x: "shape_of ?x = Some (fst (input_size self), snd (input_size self), nb_channels self)"
    by simp
  show ?thesis
  proof (cases "conditional self")
    case True
    let ?l = "LatentInput ''latent_vector'' (latent_dim self)"
    have l: "\<And>l. Some ?l = Some l \<Longrightarrow> 1 \<le> vec_dim l" using ld [OF True] by auto
    obtain g w' where g: "build_layers self ?x (Some ?l) w = (Inr (self\<lparr>h := Some ?l\<rparr>, g), w')"
      "shape_of g = Some (fst (input_size self), snd (input_size self), nb_channels self)"
      using build_layers_ok [OF x hw ch nb l odd1 odd, where w = w] by blast
    show ?thesis
      unfolding build_model_def Let_def using True g opt
      by (simp add: bind_def ret_def compile_def Let_def)
  next
    case False
    obtain g w' where g: "build_layers self ?x None w = (Inr (self\<lparr>h := None\<rparr>, g), w')"
      "shape_of g = Some (fst (input_size self), snd (input_size self), nb_channels self)"
      using build_layers_ok [OF x hw ch nb _ odd1 odd, where lat = None and w = w] by auto
    show ?thesis
      unfolding build_model_def Let_def using False g opt
      by (simp add: bind_def ret_def compile_def Let_def)
  qed
qed

section \<open>What a successful construction has built\<close>

lemma GatedCNN_call_inv:
  assumes "GatedCNN_call u xW i s = (Inr n, s')"
  shows "\<exists>tag. stack_tag_of (unit_stack_name u) = Some tag
      \<and> n = Multiply (tag @ ''_merge_gate_'' @ str i)
            (Lambda_tanh (tag @ ''_tanh_'' @ str i)
               (Lambda_Wf (unit_nb_filters u) (tag @ ''_Wf_'' @ str i)
                  (pre_activation u (2 * unit_nb_filters u) tag xW i)))
            (Lambda_sigmoid (tag @ ''_sigmoid_'' @ str i)
               (Lambda_Wg (unit_nb_filters u) (tag @ ''_Wg_'' @ str i)
                  (pre_activation u (2 * unit_nb_filters u) tag xW i)))
      \<and> shape_of n \<noteq> None
      \<and> (\<forall>l. unit_h u = Some l \<longrightarrow> 1 \<le> vec_dim l)"
  using assms
  by (cases "unit_v_map u"; cases "unit_h u"; cases "unit_crop_right u")
     (auto simp: GatedCNN_call_def build_Inr Let_def pre_activation_def)

lemma ReLUCNN_call_inv:
  assumes "ReLUCNN_call u xW i s = (Inr n, s')"
  shows "\<exists>tag. stack_tag_of (unit_stack_name u) = Some tag
      \<and> n = Activation_relu (tag @ ''_relu_latent_'' @ str i)
            (pre_activation u (unit_nb_filters u) tag xW i)
      \<and> shape_of n \<noteq> None
      \<and> (\<forall>l. unit_h u = Some l \<longrightarrow> 1 \<le> vec_dim l)"
  using assms
  by (cases "unit_v_map u"; cases "unit_h u"; cases "unit_crop_right u")
     (auto simp: ReLUCNN_call_def build_Inr Let_def pre_activation_def)

lemma masked_conv_inv:
  assumes "masked_conv self x ksz stack_name i mask_type s = (Inr n, s')"
  shows "(stack_name = ''vertical'' \<and>
            n = Conv2D (my_nb_filters self) (fst ksz div 2 + 1) (snd ksz) False
                  (Some (''v_conv_'' @ str i))
                  (ZeroPadding2D (fst ksz div 2) 0 (snd ksz div 2) (snd ksz div 2)
                     (''v_pad_'' @ str i) x)
          \<or> stack_name = ''horizontal'' \<and>
            n = Conv2D (my_nb_filters self) 1
                  (if mask_type = ''A'' then snd ksz div 2 else snd ksz div 2 + 1) False
                  (Some (''h_conv_'' @ str i))
                  (ZeroPadding2D 0 0 (snd ksz div 2) 0 (''h_pad_'' @ str i) x))
       \<and> shape_of n \<noteq> None
       \<and> (\<exists>pad. s' = s @ [T4 pad, T4 n])"
  using assms
  by (auto simp: masked_conv_def build_Inr split: if_splits)

lemma feed_v_map_inv:
  assumes "feed_v_map self x i s = (Inr n, s')"
  shows "n = Conv2D (my_nb_filters self) 1 1 False (Some (''v_1x1_conv_'' @ str i))
               (Lambda_shift_down (''v_shift_down'' @ str i) x)
       \<and> shape_of n \<noteq> None"
  using assms by (auto simp: feed_v_map_def build_Inr)

lemma unit_call_inv:
  assumes "(if g then GatedCNN_call u xW i else ReLUCNN_call u xW i) s = (Inr n, s')"
  shows "\<exists>tag. stack_tag_of (unit_stack_name u) = Some tag
           \<and> n = activation_node g u tag xW i \<and> shape_of n \<noteq> None
           \<and> (\<forall>l. unit_h u = Some l \<longrightarrow> 1 \<le> vec_dim l)"
proof (cases g)
  case True
  with assms GatedCNN_call_inv [of u xW i s n s'] show ?thesis
    by (auto simp: activation_node_def)
next
  case False
  with assms ReLUCNN_call_inv [of u xW i s n s'] show ?thesis
    by (auto simp: activation_node_def)
qed

lemma first_layer_inv:
  assumes "first_layer self x s = (Inr st, s')"
  shows "v_masked_map st = Conv2D (my_nb_filters self) (fst (filter_size_1st self) div 2 + 1)
             (snd (filter_size_1st self)) False (Some (''v_conv_'' @ str 0))
             (ZeroPadding2D (fst (filter_size_1st self) div 2) 0
                (snd (filter_size_1st self) div 2) (snd (filter_size_1st self) div 2)
                (''v_pad_'' @ str 0) x)
       \<and> v_feed_map st = Conv2D (my_nb_filters self) 1 1 False (Some (''v_1x1_conv_'' @ str 0))
             (Lambda_shift_down (''v_shift_down'' @ str 0) (v_masked_map st))
       \<and> v_stack_out st = activation_node (gated self)
             \<lparr>unit_nb_filters = nb_filters self, unit_stack_name = ''vertical'',
               unit_v_map = None, unit_h = h self, unit_crop_right = False\<rparr>
             ''v'' (v_masked_map st) 0
       \<and> h_masked_map st = Conv2D (my_nb_filters self) 1 (snd (filter_size_1st self) div 2)
             False (Some (''h_conv_'' @ str 0))
             (ZeroPadding2D 0 0 (snd (filter_size_1st self) div 2) 0 (''h_pad_'' @ str 0) x)
       \<and> h_stack_out st = Conv2D (nb_filters self) 1 1 False (Some ''h_1x1_conv_0'')
             (activation_node (gated self)
                \<lparr>unit_nb_filters = nb_filters self, unit_stack_name = ''horizontal'',
                  unit_v_map = Some (v_feed_map st), unit_h = h self, unit_crop_right = True\<rparr>
                ''h'' (h_masked_map st) 0)
       \<and> shape_of (v_stack_out st) \<noteq> None \<and> shape_of (h_stack_out st) \<noteq> None
       \<and> shape_of (v_masked_map st) \<noteq> None \<and> shape_of (v_feed_map st) \<noteq> None
       \<and> (\<forall>l. h self = Some l \<longrightarrow> 1 \<le> vec_dim l)"
  using assms
  apply (simp add: first_layer_def bind_Inr ret_Inr call_layer_Inr)
  apply (elim exE conjE)
  apply (drule masked_conv_inv)+
  apply (drule feed_v_map_inv)
  apply (drule unit_call_inv)+
  apply (auto simp: stack_tag_of_def)
  done

lemma next_layer_inv:
  assumes "next_layer self i prev s = (Inr st, s')"
  shows "v_masked_map st = Conv2D (my_nb_filters self) (fst (filter_size self) div 2 + 1)
             (snd (filter_size self)) False (Some (''v_conv_'' @ str i))
             (ZeroPadding2D (fst (filter_size self) div 2) 0
                (snd (filter_size self) div 2) (snd (filter_size self) div 2)
                (''v_pad_'' @ str i) (v_stack_out prev))
       \<and> v_feed_map st = Conv2D (my_nb_filters self) 1 1 False (Some (''v_1x1_conv_'' @ str i))
             (Lambda_shift_down (''v_shift_down'' @ str i) (v_masked_map st))
       \<and> v_stack_out st = activation_node (gated self)
             \<lparr>unit_nb_filters = nb_filters self, unit_stack_name = ''vertical'',
               unit_v_map = None, unit_h = h self, unit_crop_right = False\<rparr>
             ''v'' (v_masked_map st) i
       \<and> h_masked_map st = Conv2D (my_nb_filters self) 1 (snd (filter_size self) div 2 + 1)
             False (Some (''h_conv_'' @ str i))
             (ZeroPadding2D 0 0 (snd (filter_size self) div 2) 0 (''h_pad_'' @ str i)
                (h_stack_out prev))
       \<and> h_stack_out st = Add (''h_residual_'' @ str i)
             (Conv2D (nb_filters self) 1 1 False (Some (''h_1x1_conv_'' @ str i))
               (activation_node (gated self)
                \<lparr>unit_nb_filters = nb_filters self, unit_stack_name = ''horizontal'',
                  unit_v_map = Some (v_feed_map st), unit_h = h self, unit_crop_right = False\<rparr>
                ''h'' (h_masked_map st) i))
             (h_stack_out prev)
       \<and> shape_of (v_stack_out st) \<noteq> None \<and> shape_of (h_stack_out st) \<noteq> None
       \<and> shape_of (v_masked_map st) \<noteq> None \<and> shape_of (v_feed_map st) \<noteq> None
       \<and> (\<forall>l. h self = Some l \<longrightarrow> 1 \<le> vec_dim l)"
  using assms
  apply (simp add: next_layer_def Let_def bind_Inr ret_Inr call_layer_Inr)
  apply (elim exE conjE)
  apply (drule masked_conv_inv)+
  apply (drule feed_v_map_inv)
  apply (drule unit_call_inv)+
  apply (auto simp: stack_tag_of_def)
  done

lemma activation_node_not_conv: "activation_node g u tag xW i \<noteq> Conv2D f kh kw act name y"
  by (simp add: activation_node_def)

lemma penultimate_convs_inv:
  assumes "penultimate_convs self [0..<2] hs s = (Inr n, s')"
  shows "n = Conv2D (nb_filters self) 1 1 True (Some (''penultimate_convs'' @ str 1))
               (Conv2D (nb_filters self) 1 1 True (Some (''penultimate_convs'' @ str 0)) hs)"
  using assms by (auto simp: upt_0_2 build_Inr)

lemma build_layers_inv:
  assumes "build_layers self x lat w = (Inr (self', g), w')"
  shows "\<exists>st0 c0 st1 c1 n c2.
           first_layer (self\<lparr>h := lat\<rparr>) x (layer_calls w) = (Inr st0, c0)
         \<and> layers_loop (self\<lparr>h := lat\<rparr>) [1..<nb_pixelcnn_layers self] st0 c0 = (Inr st1, c1)
         \<and> penultimate_convs (self\<lparr>h := lat\<rparr>) [0..<2] (h_stack_out st1) c1 = (Inr n, c2)
         \<and> g = Conv2D (nb_channels self) 1 1 False
                 (Some (''conv2d_'' @ str (conv2d_uid w + 1))) n
         \<and> shape_of g \<noteq> None
         \<and> self' = self\<lparr>h := lat\<rparr>
         \<and> fs w' = fs w \<and> image_dim_ordering w' = image_dim_ordering w
         \<and> conv2d_uid w' = conv2d_uid w + 1
         \<and> layer_calls w' = c2 @ [T4 g]"
  using assms
  by (auto simp: build_layers_def Let_def bind_Inr ret_Inr lift_Inr conv2d_auto_name_Inr
        call_layer_Inr)

lemma build_model_inv:
  assumes "build_model self w = (Inr obj, w')"
  shows "\<exists>lat g. build_layers self
             (Input ''input_image'' (fst (input_size self)) (snd (input_size self))
                (nb_channels self)) lat w = (Inr (self\<lparr>h := lat\<rparr>, g), w')
         \<and> lat = (if conditional self
                  then Some (LatentInput ''latent_vector'' (latent_dim self)) else None)
         \<and> predicted obj = Some g \<and> h obj = lat \<and> model obj \<noteq> None
         \<and> map lower_char (optimizer self) \<in> set optimizer_names"
proof (cases "conditional self")
  case True
  with assms obtain self1 g w1 where
    b: "build_layers self (Input ''input_image'' (fst (input_size self)) (snd (input_size self))
          (nb_channels self)) (Some (LatentInput ''latent_vector'' (latent_dim self))) w
        = (Inr (self1, g), w1)"
    and c: "compile (optimizer (self1\<lparr>predicted := Some g,
              model := Some ([T4 (Input ''input_image'' (fst (input_size self))
                 (snd (input_size self)) (nb_channels self)),
                 T2 (LatentInput ''latent_vector'' (latent_dim self))], g)\<rparr>)) w1 = (Inr (), w')"
    and o: "obj = self1\<lparr>predicted := Some g,
              model := Some ([T4 (Input ''input_image'' (fst (input_size self))
                 (snd (input_size self)) (nb_channels self)),
                 T2 (LatentInput ''latent_vector'' (latent_dim self))], g)\<rparr>"
    by (auto simp: build_model_def Let_def bind_Inr ret_Inr)
  from build_layers_inv [OF b] have s1: "self1 = self\<lparr>h := Some (LatentInput ''latent_vector''
      (latent_dim self))\<rparr>" by blast
  from c have "w' = w1" and "map lower_char (optimizer self) \<in> set optimizer_names"
    by (auto simp: compile_Inr s1)
  with b o s1 True show ?thesis by auto
next
  case False
  with assms obtain self1 g w1 where
    b: "build_layers self (Input ''input_image'' (fst (input_size self)) (snd (input_size self))
          (nb_channels self)) None w = (Inr (self1, g), w1)"
    and c: "compile (optimizer (self1\<lparr>predicted := Some g,
              model := Some ([T4 (Input ''input_image'' (fst (input_size self))
                 (snd (input_size self)) (nb_channels self))], g)\<rparr>)) w1 = (Inr (), w')"
    and o: "obj = self1\<lparr>predicted := Some g,
              model := Some ([T4 (Input ''input_image'' (fst (input_size self))
                 (snd (input_size self)) (nb_channels self))], g)\<rparr>"
    by (auto simp: build_model_def Let_def bind_Inr ret_Inr)
  from build_layers_inv [OF b] have s1: "self1 = self\<lparr>h := None\<rparr>" by blast
  from c have "w' = w1" and "map lower_char (optimizer self) \<in> set optimizer_names"
    by (auto simp: compile_Inr s1)
  with b o s1 False show ?thesis by auto
qed


section \<open>Counting the residual additions\<close>

lemma residual_call_layer:
  "call_layer n s = (Inr y, s') \<Longrightarrow>
     residual_count s' = residual_count s + (if is_residual (T4 n) then 1 else 0)"
  by (auto simp: call_layer_Inr residual_count_def)

lemma residual_masked_conv:
  "masked_conv self x ksz stack_name i mask_type s = (Inr n, s') \<Longrightarrow>
     residual_count s' = residual_count s"
  by (auto simp: masked_conv_def build_Inr residual_count_def is_residual_def split: if_splits)

lemma residual_feed_v_map:
  "feed_v_map self x i s = (Inr n, s') \<Longrightarrow> residual_count s' = residual_count s"
  by (auto simp: feed_v_map_def build_Inr residual_count_def is_residual_def)

lemma residual_GatedCNN:
  "GatedCNN_call u xW i s = (Inr n, s') \<Longrightarrow> residual_count s' = residual_count s"
  by (cases "unit_v_map u"; cases "unit_h u"; cases "unit_crop_right u")
     (auto simp: GatedCNN_call_def build_Inr Let_def residual_count_def is_residual_def)

lemma residual_ReLUCNN:
  "ReLUCNN_call u xW i s = (Inr n, s') \<Longrightarrow> residual_count s' = residual_count s"
  by (cases "unit_v_map u"; cases "unit_h u"; cases "unit_crop_right u")
     (auto simp: ReLUCNN_call_def build_Inr Let_def residual_count_def is_residual_def)

lemma residual_unit:
  "(if g then GatedCNN_call u xW i else ReLUCNN_call u xW i) s = (Inr n, s') \<Longrightarrow>
     residual_count s' = residual_count s"
  by (auto dest: residual_GatedCNN residual_ReLUCNN split: if_splits)

lemma residual_first_layer:
  assumes "first_layer self x s = (Inr st, s')"
  shows "residual_count s' = residual_count s"
  using assms
  apply (simp add: first_layer_def bind_Inr ret_Inr)
  apply (elim exE conjE)
  apply (drule residual_masked_conv)+
  apply (drule residual_feed_v_map)
  apply (drule residual_unit)+
  apply (drule residual_call_layer)
  apply (simp add: is_residual_def)
  done

lemma residual_next_layer:
  assumes "next_layer self i prev s = (Inr st, s')"
  shows "residual_count s' = residual_count s + 1"
  using assms
  apply (simp add: next_layer_def Let_def bind_Inr ret_Inr)
  apply (elim exE conjE)
  apply (drule residual_masked_conv)+
  apply (drule residual_feed_v_map)
  apply (drule residual_unit)+
  apply (drule residual_call_layer)+
  apply (simp add: is_residual_def)
  done

lemma residual_layers_loop:
  "layers_loop self idxs prev s = (Inr st, s') \<Longrightarrow>
     residual_count s' = residual_count s + length idxs"
proof (induction idxs arbitrary: prev s)
  case Nil
  then show ?case by (simp add: ret_Inr)
next
  case (Cons i rest)
  then obtain st1 s1 where a: "next_layer self i prev s = (Inr st1, s1)"
      and b: "layers_loop self rest st1 s1 = (Inr st, s')"
    by (auto simp: bind_Inr)
  from residual_next_layer [OF a] Cons.IH [OF b] show ?case by simp
qed

lemma residual_penultimate:
  "penultimate_convs self idxs hs s = (Inr n, s') \<Longrightarrow> residual_count s' = residual_count s"
proof (induction idxs arbitrary: hs s)
  case Nil
  then show ?case by (simp add: ret_Inr)
next
  case (Cons i rest)
  then show ?case
    by (auto simp: bind_Inr call_layer_Inr residual_count_def is_residual_def)
qed

lemma residual_build_layers:
  assumes "build_layers self x lat w = (Inr r, w')"
  shows "residual_count (layer_calls w')
           = residual_count (layer_calls w) + (nb_pixelcnn_layers self - 1)"
proof -
  obtain self' g where r: "r = (self', g)" by (cases r)
  from build_layers_inv [OF assms [unfolded r]] obtain st0 c0 st1 c1 n c2 where
    f: "first_layer (self\<lparr>h := lat\<rparr>) x (layer_calls w) = (Inr st0, c0)"
    and l: "layers_loop (self\<lparr>h := lat\<rparr>) [1..<nb_pixelcnn_layers self] st0 c0 = (Inr st1, c1)"
    and p: "penultimate_convs (self\<lparr>h := lat\<rparr>) [0..<2] (h_stack_out st1) c1 = (Inr n, c2)"
    and g: "g = Conv2D (nb_channels self) 1 1 False
                 (Some (''conv2d_'' @ str (conv2d_uid w + 1))) n"
    and c: "layer_calls w' = c2 @ [T4 g]"
    by blast
  from residual_first_layer [OF f] residual_layers_loop [OF l] residual_penultimate [OF p]
  show ?thesis by (simp add: c g residual_count_def is_residual_def)
qed

section \<open>Which pixels a map is computed from\<close>

lemma monotone_rows_upto: "monotone_reach rows_upto"
  and monotone_rows_above: "monotone_reach rows_above"
  and monotone_raster_before: "monotone_reach raster_before"
  by (auto simp: monotone_reach_def rows_upto_def rows_above_def raster_before_def)

lemma reads_only_weaken:
  assumes "reads_only R F" and "\<And>p q. R p q \<Longrightarrow> R' p q"
  shows "reads_only R' F"
  using assms unfolding reads_only_def by blast

lemma reads_only_const: "reads_only R (\<lambda>x. T)"
  by (simp add: reads_only_def)

lemma reads_only_input: "R = rows_upto \<or> R = (=) \<Longrightarrow> reads_only R (\<lambda>x. x)"
  by (auto simp: reads_only_def rows_upto_def)

lemma conv2d_cong:
  assumes "\<And>di dj k. di < kh \<Longrightarrow> dj < kw \<Longrightarrow> k < n \<Longrightarrow>
             t b (r + di) (c + dj) k = t' b (r + di) (c + dj) k"
  shows "conv2d A K bias kh kw n t b r c j = conv2d A K bias kh kw n t' b r c j"
  unfolding conv2d_def
  by (intro arg_cong2 [where f = "a_add A"] arg_cong [where f = "sum_terms A"]
        arg_cong [where f = concat] map_cong refl)
     (simp add: assms)

lemma reads_only_conv_pad:
  assumes F: "reads_only R0 F"
    and reach: "\<And>r c di dj q. di < kh \<Longrightarrow> dj < kw \<Longrightarrow> t \<le> r + di \<Longrightarrow> l \<le> c + dj \<Longrightarrow>
             R0 (r + di - t, c + dj - l) q \<Longrightarrow> R (r, c) q"
  shows "reads_only R (\<lambda>x. conv2d A K bias kh kw n (zero_padding A t l s (F x)))"
  unfolding reads_only_def
proof (intro allI impI)
  fix x x' :: "'a tens" and b r c k
  assume agree: "\<forall>r' c' k. R (r, c) (r', c') \<longrightarrow> x b r' c' k = x' b r' c' k"
  show "conv2d A K bias kh kw n (zero_padding A t l s (F x)) b r c k
      = conv2d A K bias kh kw n (zero_padding A t l s (F x')) b r c k"
  proof (rule conv2d_cong)
    fix di dj j assume d: "di < kh" "dj < kw"
    have "F x b (r + di - t) (c + dj - l) j = F x' b (r + di - t) (c + dj - l) j"
      if "t \<le> r + di" "l \<le> c + dj"
    proof -
      have "\<forall>r' c' k. R0 (r + di - t, c + dj - l) (r', c') \<longrightarrow> x b r' c' k = x' b r' c' k"
        using agree reach [OF d that] by blast
      with F show ?thesis unfolding reads_only_def by blast
    qed
    then show "zero_padding A t l s (F x) b (r + di) (c + dj) j
             = zero_padding A t l s (F x') b (r + di) (c + dj) j"
      by (auto simp: zero_padding_def split: prod.splits)
  qed
qed

lemma reads_only_conv_1x1:
  assumes F: "reads_only R F"
  shows "reads_only R (\<lambda>x. conv2d A K bias 1 1 n (F x))"
  unfolding reads_only_def
proof (intro allI impI)
  fix x x' :: "'a tens" and b r c k
  assume agree: "\<forall>r' c' k. R (r, c) (r', c') \<longrightarrow> x b r' c' k = x' b r' c' k"
  with F have "\<forall>k. F x b r c k = F x' b r c k" unfolding reads_only_def by blast
  then show "conv2d A K bias 1 1 n (F x) b r c k = conv2d A K bias 1 1 n (F x') b r c k"
    by (intro conv2d_cong) simp
qed

lemma reads_only_shift_down:
  assumes F: "reads_only rows_upto F"
  shows "reads_only rows_above (\<lambda>x. zero_padding A 1 0 s (F x))"
  unfolding reads_only_def
proof (intro allI impI)
  fix x x' :: "'a tens" and b r c k
  assume agree: "\<forall>r' c' k. rows_above (r, c) (r', c') \<longrightarrow> x b r' c' k = x' b r' c' k"
  have "F x b (r - 1) c k = F x' b (r - 1) c k" if "1 \<le> r"
  proof -
    have "\<forall>r' c' k. rows_upto (r - 1, c) (r', c') \<longrightarrow> x b r' c' k = x' b r' c' k"
      using agree that by (auto simp: rows_upto_def rows_above_def)
    with F show ?thesis unfolding reads_only_def by blast
  qed
  then show "zero_padding A 1 0 s (F x) b r c k = zero_padding A 1 0 s (F x') b r c k"
    by (auto simp: zero_padding_def split: prod.splits)
qed

lemma reads_only_broadcast2:
  assumes m: "monotone_reach R" and F: "reads_only R F" and G: "reads_only R G"
  shows "reads_only R (\<lambda>x. broadcast2 f sa (F x) sb (G x))"
  unfolding reads_only_def
proof (intro allI impI)
  fix x x' :: "'a tens" and b r c k
  assume agree: "\<forall>r' c' k. R (r, c) (r', c') \<longrightarrow> x b r' c' k = x' b r' c' k"
  have le: "broadcast_index d i \<le> i" for d i by (simp add: broadcast_index_def)
  have sub: "\<forall>r' c' k. R (broadcast_index d1 r, broadcast_index d2 c) (r', c')
               \<longrightarrow> x b r' c' k = x' b r' c' k" for d1 d2
    using agree m le unfolding monotone_reach_def by blast
  have "F x b (broadcast_index d1 r) (broadcast_index d2 c) j
      = F x' b (broadcast_index d1 r) (broadcast_index d2 c) j" for d1 d2 j
    using F sub [of d1 d2] unfolding reads_only_def by blast
  moreover have "G x b (broadcast_index d1 r) (broadcast_index d2 c) j
      = G x' b (broadcast_index d1 r) (broadcast_index d2 c) j" for d1 d2 j
    using G sub [of d1 d2] unfolding reads_only_def by blast
  ultimately show "broadcast2 f sa (F x) sb (G x) b r c k = broadcast2 f sa (F x') sb (G x') b r c k"
    by (simp add: broadcast2_def split: prod.splits)
qed

lemma reads_only_pointwise:
  assumes F: "reads_only R F"
  shows "reads_only R (\<lambda>x b r c k. g (F x b r c (p k)))"
  using F unfolding reads_only_def by metis

lemma reads_pre_activation:
  assumes m: "monotone_reach R"
    and x: "reads_only R (\<lambda>x. eval A P x lat xW)"
    and v: "\<And>v. unit_v_map u = Some v \<Longrightarrow> reads_only R (\<lambda>x. eval A P x lat v)"
  shows "reads_only R (\<lambda>x. eval A P x lat (pre_activation u units tag xW i))"
proof -
  let ?x1 = "if unit_crop_right u then Lambda_crop_right (''h_crop_right_'' @ str i) xW else xW"
  let ?x2 = "case unit_v_map u of Some v \<Rightarrow> Add (''h_merge_v_'' @ str i) ?x1 v | None \<Rightarrow> ?x1"
  have 1: "reads_only R (\<lambda>x. eval A P x lat ?x1)" using x by simp
  have 2: "reads_only R (\<lambda>x. eval A P x lat ?x2)"
  proof (cases "unit_v_map u")
    case None
    then show ?thesis using 1 by simp
  next
    case (Some w)
    from reads_only_broadcast2 [OF m 1 v [OF Some], where f = "a_add A" and sa = "the_shape ?x1" and sb = "the_shape w"]
    show ?thesis using Some by simp
  qed
  show ?thesis
  proof (cases "unit_h u")
    case None
    then show ?thesis using 2 by (simp add: pre_activation_def Let_def)
  next
    case (Some l)
    let ?r = "Reshape 1 1 units (tag @ ''_reshape_latent_'' @ str i)
                (Dense units (tag @ ''_dense_latent_'' @ str i) l)"
    have c: "reads_only R (\<lambda>x. eval A P x lat ?r)" by (simp add: reads_only_const)
    from reads_only_broadcast2 [OF m 2 c, where f = "a_add A" and sa = "the_shape ?x2" and sb = "the_shape ?r"]
    show ?thesis using Some by (simp add: pre_activation_def Let_def)
  qed
qed

lemma reads_activation_node:
  assumes m: "monotone_reach R"
    and x: "reads_only R (\<lambda>x. eval A P x lat xW)"
    and v: "\<And>v. unit_v_map u = Some v \<Longrightarrow> reads_only R (\<lambda>x. eval A P x lat v)"
  shows "reads_only R (\<lambda>x. eval A P x lat (activation_node g u tag xW i))"
proof (cases g)
  case True
  let ?p = "pre_activation u (2 * unit_nb_filters u) tag xW i"
  note p = reads_pre_activation [OF m x v, where units = "2 * unit_nb_filters u" and tag = tag and i = i]
  have a: "reads_only R (\<lambda>x b r c k. a_tanh A (eval A P x lat ?p b r c k))"
    using reads_only_pointwise [OF p, where g = "a_tanh A" and p = "\<lambda>k. k"] by simp
  have b: "reads_only R (\<lambda>x b r c k. a_sigmoid A (eval A P x lat ?p b r c (unit_nb_filters u + k)))"
    using reads_only_pointwise [OF p, where g = "a_sigmoid A" and p = "\<lambda>k. unit_nb_filters u + k"]
    by simp
  from reads_only_broadcast2 [OF m a b, where f = "a_mul A"] True show ?thesis
    by (simp add: activation_node_def)
next
  case False
  let ?p = "pre_activation u (unit_nb_filters u) tag xW i"
  note p = reads_pre_activation [OF m x v, where units = "unit_nb_filters u" and tag = tag and i = i]
  have "reads_only R (\<lambda>x b r c k. a_relu A (eval A P x lat ?p b r c k))"
    using reads_only_pointwise [OF p, where g = "a_relu A" and p = "\<lambda>k. k"] by simp
  with False show ?thesis by (simp add: activation_node_def)
qed

lemma reads_conv_node_1x1:
  assumes "reads_only R (\<lambda>x. eval A P x lat n)"
  shows "reads_only R (\<lambda>x. eval A P x lat (Conv2D f 1 1 act name n))"
proof (cases act)
  case False
  with reads_only_conv_1x1 [OF assms] show ?thesis by simp
next
  case True
  from reads_only_pointwise [OF reads_only_conv_1x1 [OF assms], where g = "a_relu A" and p = "\<lambda>k. k"]
  show ?thesis using True by (simp add: Let_def)
qed

lemma reads_vertical_conv:
  assumes "reads_only rows_upto (\<lambda>x. eval A P x lat n)"
  shows "reads_only rows_upto (\<lambda>x. eval A P x lat
           (Conv2D f (kh div 2 + 1) kw False name (ZeroPadding2D (kh div 2) pb pl pr name' n)))"
proof -
  have "reads_only rows_upto (\<lambda>x. conv2d A K bias (kh div 2 + 1) kw m
          (zero_padding A (kh div 2) pl s (eval A P x lat n)))" for K bias m s
    by (rule reads_only_conv_pad [OF assms]) (auto simp: rows_upto_def)
  then show ?thesis by simp
qed

lemma reads_horizontal_A:
  assumes "reads_only (=) (\<lambda>x. eval A P x lat n)"
  shows "reads_only raster_before (\<lambda>x. eval A P x lat
           (Conv2D f 1 (kw div 2) False name (ZeroPadding2D 0 pb (kw div 2) pr name' n)))"
proof -
  have "reads_only raster_before (\<lambda>x. conv2d A K bias 1 (kw div 2) m
          (zero_padding A 0 (kw div 2) s (eval A P x lat n)))" for K bias m s
    by (rule reads_only_conv_pad [OF assms]) (auto simp: raster_before_def)
  then show ?thesis by simp
qed

lemma reads_horizontal_B:
  assumes "reads_only raster_before (\<lambda>x. eval A P x lat n)"
  shows "reads_only raster_before (\<lambda>x. eval A P x lat
           (Conv2D f 1 (kw div 2 + 1) False name (ZeroPadding2D 0 pb (kw div 2) pr name' n)))"
proof -
  have "reads_only raster_before (\<lambda>x. conv2d A K bias 1 (kw div 2 + 1) m
          (zero_padding A 0 (kw div 2) s (eval A P x lat n)))" for K bias m s
    by (rule reads_only_conv_pad [OF assms]) (auto simp: raster_before_def)
  then show ?thesis by simp
qed

lemma reads_feed:
  assumes "reads_only rows_upto (\<lambda>x. eval A P x lat n)"
  shows "reads_only raster_before (\<lambda>x. eval A P x lat
           (Conv2D f 1 1 False name (Lambda_shift_down name' n)))"
proof -
  have "reads_only rows_above (\<lambda>x. eval A P x lat (Lambda_shift_down name' n))"
    using reads_only_shift_down [OF assms] by simp
  then have "reads_only raster_before (\<lambda>x. eval A P x lat (Lambda_shift_down name' n))"
    by (rule reads_only_weaken) (simp add: rows_above_def raster_before_def)
  then show ?thesis by (rule reads_conv_node_1x1)
qed

lemma reads_add_node:
  assumes "monotone_reach R" and "reads_only R (\<lambda>x. eval A P x lat n)"
    and "reads_only R (\<lambda>x. eval A P x lat m)"
  shows "reads_only R (\<lambda>x. eval A P x lat (Add name n m))"
  using reads_only_broadcast2 [OF assms, where f = "a_add A"] by simp

lemma reads_first_layer:
  assumes a: "first_layer self x s = (Inr st, s')"
    and x: "reads_only (=) (\<lambda>img. eval A P img lat x)"
  shows "reads_only rows_upto (\<lambda>img. eval A P img lat (v_stack_out st))"
    and "reads_only raster_before (\<lambda>img. eval A P img lat (h_stack_out st))"
proof -
  note inv = first_layer_inv [OF a]
  note e_vm = inv [THEN conjunct1]
  note e_vf = inv [THEN conjunct2, THEN conjunct1]
  note e_vs = inv [THEN conjunct2, THEN conjunct2, THEN conjunct1]
  note e_hm = inv [THEN conjunct2, THEN conjunct2, THEN conjunct2, THEN conjunct1]
  note e_hs = inv [THEN conjunct2, THEN conjunct2, THEN conjunct2, THEN conjunct2, THEN conjunct1]
  have xr: "reads_only rows_upto (\<lambda>img. eval A P img lat x)"
    by (rule reads_only_weaken [OF x]) (simp add: rows_upto_def)
  have vm: "reads_only rows_upto (\<lambda>img. eval A P img lat (v_masked_map st))"
    by (subst e_vm) (rule reads_vertical_conv [OF xr])
  have vf: "reads_only raster_before (\<lambda>img. eval A P img lat (v_feed_map st))"
    by (subst e_vf) (rule reads_feed [OF vm])
  show "reads_only rows_upto (\<lambda>img. eval A P img lat (v_stack_out st))"
    by (subst e_vs) (rule reads_activation_node [OF monotone_rows_upto vm], simp)
  have hm: "reads_only raster_before (\<lambda>img. eval A P img lat (h_masked_map st))"
    by (subst e_hm) (rule reads_horizontal_A [OF x])
  show "reads_only raster_before (\<lambda>img. eval A P img lat (h_stack_out st))"
    by (subst e_hs)
       (rule reads_conv_node_1x1, rule reads_activation_node [OF monotone_raster_before hm],
        simp add: vf)
qed

lemma reads_next_layer:
  assumes a: "next_layer self i prev s = (Inr st, s')"
    and v: "reads_only rows_upto (\<lambda>img. eval A P img lat (v_stack_out prev))"
    and hp: "reads_only raster_before (\<lambda>img. eval A P img lat (h_stack_out prev))"
  shows "reads_only rows_upto (\<lambda>img. eval A P img lat (v_stack_out st))"
    and "reads_only raster_before (\<lambda>img. eval A P img lat (h_stack_out st))"
proof -
  note inv = next_layer_inv [OF a]
  note e_vm = inv [THEN conjunct1]
  note e_vf = inv [THEN conjunct2, THEN conjunct1]
  note e_vs = inv [THEN conjunct2, THEN conjunct2, THEN conjunct1]
  note e_hm = inv [THEN conjunct2, THEN conjunct2, THEN conjunct2, THEN conjunct1]
  note e_hs = inv [THEN conjunct2, THEN conjunct2, THEN conjunct2, THEN conjunct2, THEN conjunct1]
  have vm: "reads_only rows_upto (\<lambda>img. eval A P img lat (v_masked_map st))"
    by (subst e_vm) (rule reads_vertical_conv [OF v])
  have vf: "reads_only raster_before (\<lambda>img. eval A P img lat (v_feed_map st))"
    by (subst e_vf) (rule reads_feed [OF vm])
  show "reads_only rows_upto (\<lambda>img. eval A P img lat (v_stack_out st))"
    by (subst e_vs) (rule reads_activation_node [OF monotone_rows_upto vm], simp)
  have hm: "reads_only raster_before (\<lambda>img. eval A P img lat (h_masked_map st))"
    by (subst e_hm) (rule reads_horizontal_B [OF hp])
  show "reads_only raster_before (\<lambda>img. eval A P img lat (h_stack_out st))"
    by (subst e_hs)
       (rule reads_add_node [OF monotone_raster_before _ hp], rule reads_conv_node_1x1,
        rule reads_activation_node [OF monotone_raster_before hm], simp add: vf)
qed

lemma reads_layers_loop:
  "layers_loop self idxs prev s = (Inr st, s') \<Longrightarrow>
   reads_only rows_upto (\<lambda>img. eval A P img lat (v_stack_out prev)) \<Longrightarrow>
   reads_only raster_before (\<lambda>img. eval A P img lat (h_stack_out prev)) \<Longrightarrow>
   reads_only raster_before (\<lambda>img. eval A P img lat (h_stack_out st))"
proof (induction idxs arbitrary: prev s)
  case Nil
  then show ?case by (simp add: ret_Inr)
next
  case (Cons i rest)
  from Cons.prems(1) obtain st1 s1 where a: "next_layer self i prev s = (Inr st1, s1)"
      and b: "layers_loop self rest st1 s1 = (Inr st, s')"
    by (auto simp: bind_Inr)
  from Cons.IH [OF b reads_next_layer [OF a Cons.prems(2,3)]] show ?case .
qed

lemma reads_penultimate:
  "penultimate_convs self idxs hs s = (Inr n, s') \<Longrightarrow>
   reads_only R (\<lambda>img. eval A P img lat hs) \<Longrightarrow>
   reads_only R (\<lambda>img. eval A P img lat n)"
proof (induction idxs arbitrary: hs s)
  case Nil
  then show ?case by (simp add: ret_Inr)
next
  case (Cons i rest)
  from Cons.prems(1) have b: "penultimate_convs self rest
      (Conv2D (nb_filters self) 1 1 True (Some (''penultimate_convs'' @ str i)) hs)
      (s @ [T4 (Conv2D (nb_filters self) 1 1 True (Some (''penultimate_convs'' @ str i)) hs)])
      = (Inr n, s')"
    by (auto simp: bind_Inr call_layer_Inr)
  from Cons.IH [OF b reads_conv_node_1x1 [OF Cons.prems(2)]] show ?case .
qed

lemma reads_build_layers:
  assumes a: "build_layers self x lt w = (Inr (self', g), w')"
    and x: "reads_only (=) (\<lambda>img. eval A P img lat x)"
  shows "reads_only raster_before (\<lambda>img. eval A P img lat g)"
proof -
  from build_layers_inv [OF a] obtain st0 s0 st1 s1 n s2 where
    f: "first_layer (self\<lparr>h := lt\<rparr>) x (layer_calls w) = (Inr st0, s0)"
    and l: "layers_loop (self\<lparr>h := lt\<rparr>) [1..<nb_pixelcnn_layers self] st0 s0 = (Inr st1, s1)"
    and p: "penultimate_convs (self\<lparr>h := lt\<rparr>) [0..<2] (h_stack_out st1) s1 = (Inr n, s2)"
    and g: "g = Conv2D (nb_channels self) 1 1 False
                 (Some (''conv2d_'' @ str (conv2d_uid w + 1))) n"
    by blast
  note r0 = reads_first_layer [OF f x]
  note r1 = reads_layers_loop [OF l r0]
  note r2 = reads_penultimate [OF p r1]
  show ?thesis unfolding g by (rule reads_conv_node_1x1 [OF r2])
qed

lemma reads_build_model:
  assumes a: "build_model self w = (Inr obj, w')" and g: "predicted obj = Some g"
  shows "reads_only raster_before (\<lambda>img. eval A P img lat g)"
proof -
  have x: "reads_only (=) (\<lambda>img. eval A P img lat (Input name hh ww cc))" for name hh ww cc
    by (simp add: reads_only_def)
  from build_model_inv [OF a] g obtain lt where
    "build_layers self (Input ''input_image'' (fst (input_size self)) (snd (input_size self))
        (nb_channels self)) lt w = (Inr (self\<lparr>h := lt\<rparr>, g), w')"
    by auto
  from reads_build_layers [OF this x] show ?thesis .
qed

section \<open>The example configuration builds\<close>

lemma broadcast2_in_range:
  assumes "r < hh" "c < ww" "k < cc"
  shows "broadcast2 f (hh, ww, cc) ta (hh, ww, cc) tb b r c k = f (ta b r c k) (tb b r c k)"
  using assms by (auto simp: broadcast2_def broadcast_index_def)

lemma example_input_shape:
  "shape_of (Input ''input_image'' 2 2 1) = Some (2, 2, 1)"
  by simp

lemma example_optimizer: "map lower_char (optimizer example_cfg) \<in> set optimizer_names"
  by (simp add: example_cfg_def optimizer_names_def lower_char_def)

lemma example_build:
  "\<exists>obj g w'. build_model example_cfg example_world = (Inr obj, w') \<and> predicted obj = Some g
     \<and> model obj \<noteq> None \<and> shape_of g = Some (2, 2, 1)"
  using build_model_ok [OF _ _ _ _ _ example_optimizer, of example_world]
  by (simp add: example_cfg_def)

lemma example_first_layer:
  "\<exists>st s'. first_layer example_cfg (Input ''input_image'' 2 2 1) [] = (Inr st, s')
     \<and> shape_of (v_stack_out st) = Some (2, 2, 1) \<and> shape_of (h_stack_out st) = Some (2, 2, 1)"
  using first_layer_ok [OF example_input_shape, of example_cfg "[]"]
  by (auto simp: example_cfg_def)

lemma example_next_layer:
  assumes "shape_of (v_stack_out st) = Some (2, 2, 1)" "shape_of (h_stack_out st) = Some (2, 2, 1)"
  shows "\<exists>st2 s2. next_layer example_cfg 1 st s = (Inr st2, s2)"
  using next_layer_ok [of st 2 2 example_cfg 1 s] assms
  by (auto simp: example_cfg_def)

lemma str_small: "str 0 = ''0''" "str (Suc 0) = ''1''" "str 1 = ''1''" "str 2 = ''2''"
    "str (Suc (Suc 0)) = ''2''"
  by (simp_all add: str.simps digit_char_def)


section \<open>The chain of horizontal outputs\<close>

lemma residual_spine_hd: "residual_spine n \<noteq> [] \<and> hd (residual_spine n) = n"
  by (cases n) auto

lemma horizontal_outputs_last: "last (horizontal_outputs n) = n"
  using residual_spine_hd [of n] by (simp add: horizontal_outputs_def last_rev)

lemma horizontal_outputs_conv [simp]:
  "horizontal_outputs (Conv2D f kh kw act name n) = [Conv2D f kh kw act name n]"
  by (simp add: horizontal_outputs_def)

lemma horizontal_outputs_residual [simp]:
  "horizontal_outputs (Add (''h_residual_'' @ s) proj prev)
     = horizontal_outputs prev @ [Add (''h_residual_'' @ s) proj prev]"
  by (simp add: horizontal_outputs_def)

lemma residual_chain_step:
  assumes c: "residual_chain self hs" and len: "length hs = a" and a: "1 \<le> a"
    and new: "new = Add (''h_residual_'' @ str a)
                 (Conv2D (nb_filters self) 1 1 False (Some (''h_1x1_conv_'' @ str a))
                    (activation_node (gated self)
                       \<lparr>unit_nb_filters = nb_filters self, unit_stack_name = ''horizontal'',
                         unit_v_map = Some vf, unit_h = h self, unit_crop_right = False\<rparr>
                       ''h''
                       (Conv2D (my_nb_filters self) 1 (snd (filter_size self) div 2 + 1) False
                          (Some (''h_conv_'' @ str a))
                          (ZeroPadding2D 0 0 (snd (filter_size self) div 2) 0
                             (''h_pad_'' @ str a) (last hs)))
                       a))
                 (last hs)"
  shows "residual_chain self (hs @ [new])"
proof -
  have ne: "hs \<noteq> []" using len a by auto
  have l: "last hs = hs ! (a - 1)" using ne len by (simp add: last_conv_nth)
  show ?thesis
    unfolding residual_chain_def
  proof (intro conjI allI impI)
    show "\<exists>act. (hs @ [new]) ! 0 = Conv2D (nb_filters self) 1 1 False (Some ''h_1x1_conv_0'') act"
      using c ne by (simp add: residual_chain_def nth_append)
  next
    fix i assume i: "1 \<le> i \<and> i < length (hs @ [new])"
    show "\<exists>vf. (hs @ [new]) ! i =
               Add (''h_residual_'' @ str i)
                 (Conv2D (nb_filters self) 1 1 False (Some (''h_1x1_conv_'' @ str i))
                    (activation_node (gated self)
                       \<lparr>unit_nb_filters = nb_filters self, unit_stack_name = ''horizontal'',
                         unit_v_map = Some vf, unit_h = h self, unit_crop_right = False\<rparr>
                       ''h''
                       (Conv2D (my_nb_filters self) 1 (snd (filter_size self) div 2 + 1) False
                          (Some (''h_conv_'' @ str i))
                          (ZeroPadding2D 0 0 (snd (filter_size self) div 2) 0
                             (''h_pad_'' @ str i) ((hs @ [new]) ! (i - 1))))
                       i))
                 ((hs @ [new]) ! (i - 1))"
    proof (cases "i < a")
      case True
      then have "i < length hs" "i - 1 < length hs" using len by simp_all
      then have "(hs @ [new]) ! i = hs ! i" "(hs @ [new]) ! (i - 1) = hs ! (i - 1)"
        by (simp_all only: nth_append if_True)
      with c i True len show ?thesis unfolding residual_chain_def by auto
    next
      case False
      with i len have ia: "i = a" by simp
      have "(hs @ [new]) ! a = new" "(hs @ [new]) ! (a - 1) = last hs"
        using len a l by (simp_all add: nth_append)
      with new ia show ?thesis by auto
    qed
  qed
qed

lemma chain_layers_loop:
  "layers_loop self [a..<a + n] prev s = (Inr st, s') \<Longrightarrow> 1 \<le> a \<Longrightarrow>
   length (horizontal_outputs (h_stack_out prev)) = a \<Longrightarrow>
   residual_chain self (horizontal_outputs (h_stack_out prev)) \<Longrightarrow>
   length (horizontal_outputs (h_stack_out st)) = a + n
     \<and> residual_chain self (horizontal_outputs (h_stack_out st))"
proof (induction n arbitrary: a prev s)
  case 0
  then show ?case by (simp add: ret_Inr)
next
  case (Suc n)
  have u: "[a..<a + Suc n] = a # [Suc a..<Suc a + n]" by (simp add: upt_conv_Cons)
  from Suc.prems(1) obtain st1 s1 where nl: "next_layer self a prev s = (Inr st1, s1)"
      and ll: "layers_loop self [Suc a..<Suc a + n] st1 s1 = (Inr st, s')"
    unfolding u by (auto simp: bind_Inr)
  note inv = next_layer_inv [OF nl]
  note e_hm = inv [THEN conjunct2, THEN conjunct2, THEN conjunct2, THEN conjunct1]
  note e_hs = inv [THEN conjunct2, THEN conjunct2, THEN conjunct2, THEN conjunct2, THEN conjunct1]
  let ?hs = "horizontal_outputs (h_stack_out prev)"
  have new: "h_stack_out st1 = Add (''h_residual_'' @ str a)
                 (Conv2D (nb_filters self) 1 1 False (Some (''h_1x1_conv_'' @ str a))
                    (activation_node (gated self)
                       \<lparr>unit_nb_filters = nb_filters self, unit_stack_name = ''horizontal'',
                         unit_v_map = Some (v_feed_map st1), unit_h = h self,
                         unit_crop_right = False\<rparr>
                       ''h''
                       (Conv2D (my_nb_filters self) 1 (snd (filter_size self) div 2 + 1) False
                          (Some (''h_conv_'' @ str a))
                          (ZeroPadding2D 0 0 (snd (filter_size self) div 2) 0
                             (''h_pad_'' @ str a) (last ?hs)))
                       a))
                 (last ?hs)"
    by (subst e_hs, subst e_hm) (simp add: horizontal_outputs_last)
  have ho: "horizontal_outputs (h_stack_out st1) = ?hs @ [h_stack_out st1]"
    by (subst e_hs, subst e_hs) (rule horizontal_outputs_residual)
  have c1: "residual_chain self (horizontal_outputs (h_stack_out st1))"
    unfolding ho by (rule residual_chain_step [OF Suc.prems(4) Suc.prems(3) Suc.prems(2) new])
  have l1: "length (horizontal_outputs (h_stack_out st1)) = Suc a"
    unfolding ho using Suc.prems(3) by simp
  from Suc.IH [OF ll _ l1 c1] show ?case by simp
qed

lemma chain_build_layers:
  assumes "build_layers self x lat w = (Inr (self', g), w')"
  shows "\<exists>hN. g = Conv2D (nb_channels self) 1 1 False
                    (Some (''conv2d_'' @ str (conv2d_uid w + 1)))
                    (Conv2D (nb_filters self) 1 1 True (Some (''penultimate_convs'' @ str 1))
                       (Conv2D (nb_filters self) 1 1 True (Some (''penultimate_convs'' @ str 0))
                          hN))
           \<and> length (horizontal_outputs hN) = max 1 (nb_pixelcnn_layers self)
           \<and> residual_chain (self\<lparr>h := lat\<rparr>) (horizontal_outputs hN)
           \<and> last (horizontal_outputs hN) = hN"
proof -
  from build_layers_inv [OF assms] obtain st0 c0 st1 c1 n c2 where
    f: "first_layer (self\<lparr>h := lat\<rparr>) x (layer_calls w) = (Inr st0, c0)"
    and l: "layers_loop (self\<lparr>h := lat\<rparr>) [1..<nb_pixelcnn_layers self] st0 c0 = (Inr st1, c1)"
    and p: "penultimate_convs (self\<lparr>h := lat\<rparr>) [0..<2] (h_stack_out st1) c1 = (Inr n, c2)"
    and g: "g = Conv2D (nb_channels self) 1 1 False
                 (Some (''conv2d_'' @ str (conv2d_uid w + 1))) n"
    by blast
  note inv = first_layer_inv [OF f]
  note e_hs = inv [THEN conjunct2, THEN conjunct2, THEN conjunct2, THEN conjunct2, THEN conjunct1]
  have h0: "horizontal_outputs (h_stack_out st0) = [h_stack_out st0]"
    by (subst e_hs, subst e_hs) simp
  have c0: "residual_chain (self\<lparr>h := lat\<rparr>) (horizontal_outputs (h_stack_out st0))"
    unfolding h0 residual_chain_def using e_hs by auto
  have u: "[1..<nb_pixelcnn_layers self] = [1..<1 + (nb_pixelcnn_layers self - 1)]"
    by (cases "nb_pixelcnn_layers self") auto
  from chain_layers_loop [OF l [unfolded u] _ _ c0] h0
  have "length (horizontal_outputs (h_stack_out st1)) = 1 + (nb_pixelcnn_layers self - 1)"
    and "residual_chain (self\<lparr>h := lat\<rparr>) (horizontal_outputs (h_stack_out st1))"
    by auto
  with penultimate_convs_inv [OF p] g horizontal_outputs_last [of "h_stack_out st1"]
  show ?thesis by (intro exI [of _ "h_stack_out st1"]) auto
qed

section \<open>What a successful construction needs\<close>

lemma first_layer_needs:
  assumes f: "first_layer self x s = (Inr st, s')" and x: "shape_of x = Some (hh, ww, cc)"
  shows "1 \<le> hh \<and> 1 \<le> cc \<and> 1 \<le> nb_filters self
         \<and> (odd (snd (filter_size_1st self)) \<longrightarrow> 1 \<le> ww)
         \<and> (\<forall>l. h self = Some l \<longrightarrow> 1 \<le> vec_dim l)"
proof -
  note inv = first_layer_inv [OF f]
  note e_vm = inv [THEN conjunct1]
  note e_vf = inv [THEN conjunct2, THEN conjunct1]
  from inv have n: "shape_of (v_masked_map st) \<noteq> None" "shape_of (v_feed_map st) \<noteq> None"
    and l: "\<forall>l. h self = Some l \<longrightarrow> 1 \<le> vec_dim l"
    by blast+
  have vm: "shape_of (Conv2D (my_nb_filters self) (fst (filter_size_1st self) div 2 + 1)
             (snd (filter_size_1st self)) False (Some (''v_conv_'' @ str 0))
             (ZeroPadding2D (fst (filter_size_1st self) div 2) 0
                (snd (filter_size_1st self) div 2) (snd (filter_size_1st self) div 2)
                (''v_pad_'' @ str 0) x)) \<noteq> None"
    using n(1) by (subst (asm) e_vm)
  have a: "cc \<noteq> 0" "1 \<le> hh" "snd (filter_size_1st self)
             \<le> snd (filter_size_1st self) div 2 + ww + snd (filter_size_1st self) div 2"
    using vm x by (auto simp: conv_length_def split: if_splits)
  have w: "odd (snd (filter_size_1st self)) \<longrightarrow> 1 \<le> ww"
  proof
    assume "odd (snd (filter_size_1st self))"
    then obtain k where "snd (filter_size_1st self) = 2 * k + 1" by (auto elim: oddE)
    with a(3) show "1 \<le> ww" by simp
  qed
  have "\<exists>h1 w1. shape_of (Conv2D (my_nb_filters self) (fst (filter_size_1st self) div 2 + 1)
             (snd (filter_size_1st self)) False (Some (''v_conv_'' @ str 0))
             (ZeroPadding2D (fst (filter_size_1st self) div 2) 0
                (snd (filter_size_1st self) div 2) (snd (filter_size_1st self) div 2)
                (''v_pad_'' @ str 0) x)) = Some (h1, w1, my_nb_filters self)"
    using vm x by (auto simp: conv_length_def split: if_splits)
  then obtain h1 w1 where s: "shape_of (v_masked_map st) = Some (h1, w1, my_nb_filters self)"
    using arg_cong [OF e_vm, of shape_of] by auto
  have "shape_of (Conv2D (my_nb_filters self) 1 1 False (Some (''v_1x1_conv_'' @ str 0))
             (Lambda_shift_down (''v_shift_down'' @ str 0) (v_masked_map st))) \<noteq> None"
    using n(2) by (subst (asm) e_vf)
  with s have "my_nb_filters self \<noteq> 0" by (auto split: if_splits)
  then have "1 \<le> nb_filters self" by (auto simp: my_nb_filters_def split: if_splits)
  with a w l show ?thesis by simp
qed

lemma build_model_needs:
  assumes "build_model self w = (Inr obj, w')"
  shows "1 \<le> fst (input_size self) \<and> 1 \<le> nb_channels self \<and> 1 \<le> nb_filters self
         \<and> (odd (snd (filter_size_1st self)) \<longrightarrow> 1 \<le> snd (input_size self))
         \<and> (conditional self \<longrightarrow> 1 \<le> latent_dim self)
         \<and> map lower_char (optimizer self) \<in> set optimizer_names"
proof -
  from build_model_inv [OF assms] obtain lat g where
    b: "build_layers self (Input ''input_image'' (fst (input_size self)) (snd (input_size self))
          (nb_channels self)) lat w = (Inr (self\<lparr>h := lat\<rparr>, g), w')"
    and lat: "lat = (if conditional self
                  then Some (LatentInput ''latent_vector'' (latent_dim self)) else None)"
    and o: "map lower_char (optimizer self) \<in> set optimizer_names"
    by blast
  from build_layers_inv [OF b] obtain st0 c0 where
    f: "first_layer (self\<lparr>h := lat\<rparr>) (Input ''input_image'' (fst (input_size self))
          (snd (input_size self)) (nb_channels self)) (layer_calls w) = (Inr st0, c0)"
    by blast
  from first_layer_needs [OF f] lat o show ?thesis by auto
qed

section \<open>The graph does not depend on the calls made before\<close>




















section \<open>Decimal names\<close>




section \<open>The same configuration in another process state\<close>



section \<open>Causality\<close>

text \<open>
  Claim C1. For every configuration from which \<^verbatim>\<open>build_model\<close> builds a graph (any layer
  count, gated or ReLU, with or without the latent input), any parameters and any
  executor arithmetic: if two images agree everywhere except at positions strictly after
  \<open>(r, c)\<close> in raster order, the predictions at \<open>(r, c)\<close> are equal, in every sample and
  every channel. The proof shows more: the prediction at \<open>(r, c)\<close> is computed from the
  pixels strictly before \<open>(r, c)\<close> only.
\<close>

theorem causality:
  assumes "build_model self s = (Inr obj, s')" and "predicted obj = Some g"
    and "\<forall>b r' c' k. \<not> raster_after (r, c) (r', c') \<longrightarrow> x b r' c' k = x' b r' c' k"
  shows "eval A P x lat g b r c k = eval A P x' lat g b r c k"
proof -
  have "\<forall>r' c' k. raster_before (r, c) (r', c') \<longrightarrow> x b r' c' k = x' b r' c' k"
    using assms(3) by (auto simp: raster_before_def raster_after_def)
  with reads_build_model [OF assms(1,2), of A P lat] show ?thesis
    unfolding reads_only_def by blast
qed

theorem causality_witness:
  "\<exists>obj g s'. build_model example_cfg example_world = (Inr obj, s')
     \<and> predicted obj = Some g
     \<and> (\<forall>b r' c' k. \<not> raster_after (1, 0) (r', c') \<longrightarrow>
            example_img b r' c' k = example_img_perturbed b r' c' k)
     \<and> example_img 0 1 1 0 \<noteq> example_img_perturbed 0 1 1 0
     \<and> eval real_arith example_params example_img example_lat g 0 1 0 0
         = eval real_arith example_params example_img_perturbed example_lat g 0 1 0 0"
proof -
  obtain obj g s' where a: "build_model example_cfg example_world = (Inr obj, s')"
      and g: "predicted obj = Some g"
    using example_build by blast
  have d: "\<forall>b r' c' k. \<not> raster_after (1, 0) (r', c') \<longrightarrow>
            example_img b r' c' k = example_img_perturbed b r' c' k"
    by (auto simp: raster_after_def example_img_perturbed_def)
  have n: "example_img 0 1 1 0 \<noteq> example_img_perturbed 0 1 1 0"
    by (simp add: example_img_def example_img_perturbed_def)
  from causality [OF a g d, of real_arith example_params example_lat 0 0] a g d n
  show ?thesis by blast
qed


section \<open>Where the vertical feed map comes from\<close>

text \<open>
  Claim C2, as the code has it. In every layer the vertical feed map is the shift-down and
  1 by 1 projection of that layer's vertical masked convolution, the map \<^verbatim>\<open>v_masked_map\<close>
  before any activation. The vertical activation unit is applied to the same
  \<^verbatim>\<open>v_masked_map\<close> beside it, and the feed map is the \<^verbatim>\<open>v_map\<close> of the layer's horizontal
  activation unit.
\<close>

theorem vertical_feed_source:
  "(first_layer self x s = (Inr st, s') \<longrightarrow>
      v_feed_map st = Conv2D (my_nb_filters self) 1 1 False (Some (''v_1x1_conv_'' @ str 0))
                        (Lambda_shift_down (''v_shift_down'' @ str 0) (v_masked_map st))
      \<and> (\<exists>kh kw pad. v_masked_map st
            = Conv2D (my_nb_filters self) kh kw False (Some (''v_conv_'' @ str 0)) pad)
      \<and> v_stack_out st = activation_node (gated self)
            \<lparr>unit_nb_filters = nb_filters self, unit_stack_name = ''vertical'',
              unit_v_map = None, unit_h = h self, unit_crop_right = False\<rparr>
            ''v'' (v_masked_map st) 0
      \<and> v_masked_map st \<noteq> v_stack_out st
      \<and> h_stack_out st = Conv2D (nb_filters self) 1 1 False (Some ''h_1x1_conv_0'')
            (activation_node (gated self)
               \<lparr>unit_nb_filters = nb_filters self, unit_stack_name = ''horizontal'',
                 unit_v_map = Some (v_feed_map st), unit_h = h self, unit_crop_right = True\<rparr>
               ''h'' (h_masked_map st) 0))
   \<and> (next_layer self i prev s = (Inr st, s') \<longrightarrow>
      v_feed_map st = Conv2D (my_nb_filters self) 1 1 False (Some (''v_1x1_conv_'' @ str i))
                        (Lambda_shift_down (''v_shift_down'' @ str i) (v_masked_map st))
      \<and> (\<exists>kh kw pad. v_masked_map st
            = Conv2D (my_nb_filters self) kh kw False (Some (''v_conv_'' @ str i)) pad)
      \<and> v_stack_out st = activation_node (gated self)
            \<lparr>unit_nb_filters = nb_filters self, unit_stack_name = ''vertical'',
              unit_v_map = None, unit_h = h self, unit_crop_right = False\<rparr>
            ''v'' (v_masked_map st) i
      \<and> v_masked_map st \<noteq> v_stack_out st
      \<and> (\<exists>proj. h_stack_out st = Add (''h_residual_'' @ str i) proj (h_stack_out prev)
            \<and> proj = Conv2D (nb_filters self) 1 1 False (Some (''h_1x1_conv_'' @ str i))
                (activation_node (gated self)
                   \<lparr>unit_nb_filters = nb_filters self, unit_stack_name = ''horizontal'',
                     unit_v_map = Some (v_feed_map st), unit_h = h self,
                     unit_crop_right = False\<rparr>
                   ''h'' (h_masked_map st) i)))"
proof (intro conjI impI)
  assume a: "first_layer self x s = (Inr st, s')"
  note inv = first_layer_inv [OF a]
  show "v_feed_map st = Conv2D (my_nb_filters self) 1 1 False (Some (''v_1x1_conv_'' @ str 0))
                        (Lambda_shift_down (''v_shift_down'' @ str 0) (v_masked_map st))"
    using inv by blast
  show m: "\<exists>kh kw pad. v_masked_map st
            = Conv2D (my_nb_filters self) kh kw False (Some (''v_conv_'' @ str 0)) pad"
    using inv by blast
  show v: "v_stack_out st = activation_node (gated self)
            \<lparr>unit_nb_filters = nb_filters self, unit_stack_name = ''vertical'',
              unit_v_map = None, unit_h = h self, unit_crop_right = False\<rparr>
            ''v'' (v_masked_map st) 0"
    using inv by blast
  show "v_masked_map st \<noteq> v_stack_out st"
    using m v activation_node_not_conv by metis
  show "h_stack_out st = Conv2D (nb_filters self) 1 1 False (Some ''h_1x1_conv_0'')
            (activation_node (gated self)
               \<lparr>unit_nb_filters = nb_filters self, unit_stack_name = ''horizontal'',
                 unit_v_map = Some (v_feed_map st), unit_h = h self, unit_crop_right = True\<rparr>
               ''h'' (h_masked_map st) 0)"
    using inv by blast
next
  assume a: "next_layer self i prev s = (Inr st, s')"
  note inv = next_layer_inv [OF a]
  show "v_feed_map st = Conv2D (my_nb_filters self) 1 1 False (Some (''v_1x1_conv_'' @ str i))
                        (Lambda_shift_down (''v_shift_down'' @ str i) (v_masked_map st))"
    using inv by blast
  show m: "\<exists>kh kw pad. v_masked_map st
            = Conv2D (my_nb_filters self) kh kw False (Some (''v_conv_'' @ str i)) pad"
    using inv by blast
  show v: "v_stack_out st = activation_node (gated self)
            \<lparr>unit_nb_filters = nb_filters self, unit_stack_name = ''vertical'',
              unit_v_map = None, unit_h = h self, unit_crop_right = False\<rparr>
            ''v'' (v_masked_map st) i"
    using inv by blast
  show "v_masked_map st \<noteq> v_stack_out st"
    using m v activation_node_not_conv by metis
  show "\<exists>proj. h_stack_out st = Add (''h_residual_'' @ str i) proj (h_stack_out prev)
            \<and> proj = Conv2D (nb_filters self) 1 1 False (Some (''h_1x1_conv_'' @ str i))
                (activation_node (gated self)
                   \<lparr>unit_nb_filters = nb_filters self, unit_stack_name = ''horizontal'',
                     unit_v_map = Some (v_feed_map st), unit_h = h self,
                     unit_crop_right = False\<rparr>
                   ''h'' (h_masked_map st) i)"
    using inv by blast
qed

theorem vertical_feed_source_witness:
  "\<exists>st s1 st2 s2.
     first_layer example_cfg (Input ''input_image'' 2 2 1) [] = (Inr st, s1)
     \<and> v_feed_map st = Conv2D (my_nb_filters example_cfg) 1 1 False
          (Some (''v_1x1_conv_'' @ str 0))
          (Lambda_shift_down (''v_shift_down'' @ str 0) (v_masked_map st))
     \<and> next_layer example_cfg 1 st s1 = (Inr st2, s2)
     \<and> v_feed_map st2 = Conv2D (my_nb_filters example_cfg) 1 1 False
          (Some (''v_1x1_conv_'' @ str 1))
          (Lambda_shift_down (''v_shift_down'' @ str 1) (v_masked_map st2))"
proof -
  obtain st s1 where a: "first_layer example_cfg (Input ''input_image'' 2 2 1) [] = (Inr st, s1)"
      "shape_of (v_stack_out st) = Some (2, 2, 1)"
      "shape_of (h_stack_out st) = Some (2, 2, 1)"
    using example_first_layer by blast
  obtain st2 s2 where b: "next_layer example_cfg 1 st s1 = (Inr st2, s2)"
    using example_next_layer [OF a(2,3)] by blast
  from vertical_feed_source [where self = example_cfg and x = "Input ''input_image'' 2 2 1"
      and s = "[]" and st = st and s' = s1 and i = 1 and prev = st] a(1)
  have 1: "v_feed_map st = Conv2D (my_nb_filters example_cfg) 1 1 False
          (Some (''v_1x1_conv_'' @ str 0))
          (Lambda_shift_down (''v_shift_down'' @ str 0) (v_masked_map st))"
    by blast
  from vertical_feed_source [where self = example_cfg and x = "Input ''input_image'' 2 2 1"
      and s = s1 and st = st2 and s' = s2 and i = 1 and prev = st] b
  have 2: "v_feed_map st2 = Conv2D (my_nb_filters example_cfg) 1 1 False
          (Some (''v_1x1_conv_'' @ str 1))
          (Lambda_shift_down (''v_shift_down'' @ str 1) (v_masked_map st2))"
    by blast
  from a(1) b 1 2 show ?thesis by blast
qed

text \<open>
  Claim C2 as stated fails: in the first layer of the example configuration the feed
  projector's input is not the output of the vertical activation unit.
\<close>

theorem vertical_feed_source_counterexample:
  "\<exists>st s1 src. first_layer example_cfg (Input ''input_image'' 2 2 1) [] = (Inr st, s1)
     \<and> v_feed_map st = Conv2D 2 1 1 False (Some ''v_1x1_conv_0'')
          (Lambda_shift_down ''v_shift_down0'' src)
     \<and> src \<noteq> v_stack_out st"
proof -
  obtain st s1 where a: "first_layer example_cfg (Input ''input_image'' 2 2 1) [] = (Inr st, s1)"
    using example_first_layer by blast
  note inv = first_layer_inv [OF a]
  have 1: "v_feed_map st = Conv2D 2 1 1 False (Some ''v_1x1_conv_0'')
          (Lambda_shift_down ''v_shift_down0'' (v_masked_map st))"
    using inv by (simp add: my_nb_filters_def example_cfg_def str.simps digit_char_def)
  have 2: "v_masked_map st \<noteq> v_stack_out st"
    using inv activation_node_not_conv by metis
  from a 1 2 show ?thesis by blast
qed


section \<open>The masked convolution\<close>

text \<open>
  Claim C3. Whatever \<^verbatim>\<open>_masked_conv\<close> returns is a valid convolution of a zero-padded
  input: for the vertical stack, \<open>kh div 2\<close> rows above, none below, \<open>kw div 2\<close> columns on
  each side and a kernel of \<open>kh div 2 + 1\<close> by \<open>kw\<close>; for the horizontal stack, \<open>kw div 2\<close>
  columns on the left only and a kernel of height 1 and width \<open>kw div 2 + 1\<close> (mask B) or
  \<open>kw div 2\<close> (mask A). It has \<open>2 * nb_filters\<close> channels when gated and \<open>nb_filters\<close>
  otherwise, and the padding and the convolution are the two layers called.
\<close>

theorem masked_conv_rule:
  assumes "masked_conv self x (kh, kw) stack_name i mask_type calls = (Inr n, calls')"
  shows "(stack_name = ''vertical'' \<longrightarrow>
            n = Conv2D (my_nb_filters self) (kh div 2 + 1) kw False (Some (''v_conv_'' @ str i))
                  (ZeroPadding2D (kh div 2) 0 (kw div 2) (kw div 2) (''v_pad_'' @ str i) x))
       \<and> (stack_name = ''horizontal'' \<and> mask_type \<noteq> ''A'' \<longrightarrow>
            n = Conv2D (my_nb_filters self) 1 (kw div 2 + 1) False (Some (''h_conv_'' @ str i))
                  (ZeroPadding2D 0 0 (kw div 2) 0 (''h_pad_'' @ str i) x))
       \<and> (stack_name = ''horizontal'' \<and> mask_type = ''A'' \<longrightarrow>
            n = Conv2D (my_nb_filters self) 1 (kw div 2) False (Some (''h_conv_'' @ str i))
                  (ZeroPadding2D 0 0 (kw div 2) 0 (''h_pad_'' @ str i) x))
       \<and> (\<exists>hh ww. shape_of n
              = Some (hh, ww, if gated self then 2 * nb_filters self else nb_filters self))
       \<and> (\<exists>pad. calls' = calls @ [T4 pad, T4 n])"
  using assms
  by (auto simp: masked_conv_def build_Inr my_nb_filters_def split: if_splits option.splits prod.splits)

theorem masked_conv_rule_witness:
  "masked_conv example_cfg (Input ''x'' 2 2 1) (3, 3) ''horizontal'' 0 ''A'' []
     = (Inr (Conv2D 2 1 1 False (Some ''h_conv_0'')
               (ZeroPadding2D 0 0 1 0 ''h_pad_0'' (Input ''x'' 2 2 1))),
        [T4 (ZeroPadding2D 0 0 1 0 ''h_pad_0'' (Input ''x'' 2 2 1)),
         T4 (Conv2D 2 1 1 False (Some ''h_conv_0'')
               (ZeroPadding2D 0 0 1 0 ''h_pad_0'' (Input ''x'' 2 2 1)))])
   \<and> shape_of (Conv2D 2 1 1 False (Some ''h_conv_0'')
               (ZeroPadding2D 0 0 1 0 ''h_pad_0'' (Input ''x'' 2 2 1))) = Some (2, 3, 2)"
proof -
  have e: "masked_conv example_cfg (Input ''x'' 2 2 1) (3, 3) ''horizontal'' 0 ''A'' []
     = (Inr (Conv2D 2 1 1 False (Some ''h_conv_0'')
               (ZeroPadding2D 0 0 1 0 ''h_pad_0'' (Input ''x'' 2 2 1))),
        [T4 (ZeroPadding2D 0 0 1 0 ''h_pad_0'' (Input ''x'' 2 2 1)),
         T4 (Conv2D 2 1 1 False (Some ''h_conv_0'')
               (ZeroPadding2D 0 0 1 0 ''h_pad_0'' (Input ''x'' 2 2 1)))])"
    by (simp add: masked_conv_def bind_def call_layer_def ret_def local_var_def conv_length_def
          my_nb_filters_def example_cfg_def str.simps digit_char_def)
  from masked_conv_rule [OF e] e show ?thesis
    by (simp add: conv_length_def)
qed


section \<open>The vertical feed projector\<close>



section \<open>The activation unit\<close>

lemma activation_node_value:
  assumes cw: "cw = (if g then 2 * unit_nb_filters u else unit_nb_filters u)"
    and ww': "ww' = (if unit_crop_right u then ww - 1 else ww)"
    and sx: "shape_of xW = Some (hh, ww, cw)"
    and sv: "\<forall>v. unit_v_map u = Some v \<longrightarrow> shape_of v = Some (hh, ww', cw)"
  shows "shape_of (activation_node g u tag xW i) = Some (hh, ww', unit_nb_filters u)"
    and "r < hh \<Longrightarrow> c < ww' \<Longrightarrow> k < unit_nb_filters u \<Longrightarrow>
         eval A P img lat (activation_node g u tag xW i) b r c k
           = spec_activation_unit A g (unit_nb_filters u) (eval A P img lat xW)
               (map_option (eval A P img lat) (unit_v_map u))
               (map_option (\<lambda>l. dense A (dense_kernel P (tag @ ''_dense_latent_'' @ str i))
                                 (dense_bias P (tag @ ''_dense_latent_'' @ str i)) (vec_dim l)
                                 (veval A P lat l)) (unit_h u)) b r c k"
  using assms
  by (cases g; cases "unit_crop_right u"; cases "unit_v_map u"; cases "unit_h u";
      auto simp: activation_node_def pre_activation_def spec_activation_unit_def the_shape_def
        broadcast2_def broadcast_index_def Let_def)+

lemma unit_call_returns:
  assumes cw: "cw = (if g then 2 * unit_nb_filters u else unit_nb_filters u)"
    and ww': "ww' = (if unit_crop_right u then ww - 1 else ww)"
    and sx: "shape_of xW = Some (hh, ww, cw)"
    and sv: "\<forall>v. unit_v_map u = Some v \<longrightarrow> shape_of v = Some (hh, ww', cw)"
    and t: "stack_tag_of (unit_stack_name u) = Some tag"
    and l: "\<forall>l. unit_h u = Some l \<longrightarrow> 1 \<le> vec_dim l"
  shows "\<exists>s'. (if g then GatedCNN_call u xW i else ReLUCNN_call u xW i) s
               = (Inr (activation_node g u tag xW i), s')"
proof -
  have "\<exists>n s'. (if g then GatedCNN_call u xW i else ReLUCNN_call u xW i) s = (Inr n, s')"
  proof (cases g)
    case True
    with GatedCNN_call_ok [of xW hh ww u i s] cw ww' sx sv t l show ?thesis by auto
  next
    case False
    with ReLUCNN_call_ok [of xW hh ww u i s] cw ww' sx sv t l show ?thesis by auto
  qed
  then obtain n s' where
    a: "(if g then GatedCNN_call u xW i else ReLUCNN_call u xW i) s = (Inr n, s')"
    by blast
  from unit_call_inv [OF a] t have "n = activation_node g u tag xW i" by auto
  with a show ?thesis by blast
qed

text \<open>
  Claim C5. Called on a map with the channel width the builder gives it (\<open>2 * nb_filters\<close>
  gated, \<open>nb_filters\<close> ReLU) and a feed map of the shape left after the crop, either unit,
  with one of the two stack names and a latent vector that has features, returns. What it
  returns is the node that crops first, then adds the feed map, then adds the latent
  vector projected by a dense layer of that same width and reshaped to (1, 1, width), then
  activates. Its shape has the last column dropped when crop-right is set, and exactly
  \<open>nb_filters\<close> channels; its value at every position is the one the specification's
  wording gives.
\<close>

theorem activation_unit_steps:
  assumes "cw = (if g then 2 * unit_nb_filters u else unit_nb_filters u)"
    and "ww' = (if unit_crop_right u then ww - 1 else ww)"
    and "shape_of xW = Some (hh, ww, cw)"
    and "\<forall>v. unit_v_map u = Some v \<longrightarrow> shape_of v = Some (hh, ww', cw)"
  shows "((if g then GatedCNN_call u xW i else ReLUCNN_call u xW i) s = (Inr n, s') \<longrightarrow>
      (\<exists>tag. stack_tag_of (unit_stack_name u) = Some tag
      \<and> n = activation_node g u tag xW i
      \<and> shape_of n = Some (hh, ww', unit_nb_filters u)
      \<and> (\<forall>l. unit_h u = Some l \<longrightarrow>
            (\<exists>x2. pre_activation u cw tag xW i
               = Lambda_merge_latent (tag @ ''_merge_latent_'' @ str i) x2
                   (Reshape 1 1 cw (tag @ ''_reshape_latent_'' @ str i)
                      (Dense cw (tag @ ''_dense_latent_'' @ str i) l))))
      \<and> (\<forall>b r c k. r < hh \<and> c < ww' \<and> k < unit_nb_filters u \<longrightarrow>
            eval A P img lat n b r c k
              = spec_activation_unit A g (unit_nb_filters u) (eval A P img lat xW)
                  (map_option (eval A P img lat) (unit_v_map u))
                  (map_option (\<lambda>l. dense A (dense_kernel P (tag @ ''_dense_latent_'' @ str i))
                                 (dense_bias P (tag @ ''_dense_latent_'' @ str i)) (vec_dim l)
                                 (veval A P lat l)) (unit_h u)) b r c k)))
    \<and> (\<forall>tag. stack_tag_of (unit_stack_name u) = Some tag
          \<and> (\<forall>l. unit_h u = Some l \<longrightarrow> 1 \<le> vec_dim l) \<longrightarrow>
          (\<exists>s''. (if g then GatedCNN_call u xW i else ReLUCNN_call u xW i) s
                   = (Inr (activation_node g u tag xW i), s'')))"
proof (intro conjI impI allI)
  assume a: "(if g then GatedCNN_call u xW i else ReLUCNN_call u xW i) s = (Inr n, s')"
  from unit_call_inv [OF a] obtain tag where
    t: "stack_tag_of (unit_stack_name u) = Some tag" and n: "n = activation_node g u tag xW i"
    by blast
  have l: "\<forall>l. unit_h u = Some l \<longrightarrow>
            (\<exists>x2. pre_activation u cw tag xW i
               = Lambda_merge_latent (tag @ ''_merge_latent_'' @ str i) x2
                   (Reshape 1 1 cw (tag @ ''_reshape_latent_'' @ str i)
                      (Dense cw (tag @ ''_dense_latent_'' @ str i) l)))"
    by (simp add: pre_activation_def Let_def)
  from t n l activation_node_value [OF assms, where tag = tag and i = i]
  show "\<exists>tag. stack_tag_of (unit_stack_name u) = Some tag
      \<and> n = activation_node g u tag xW i
      \<and> shape_of n = Some (hh, ww', unit_nb_filters u)
      \<and> (\<forall>l. unit_h u = Some l \<longrightarrow>
            (\<exists>x2. pre_activation u cw tag xW i
               = Lambda_merge_latent (tag @ ''_merge_latent_'' @ str i) x2
                   (Reshape 1 1 cw (tag @ ''_reshape_latent_'' @ str i)
                      (Dense cw (tag @ ''_dense_latent_'' @ str i) l))))
      \<and> (\<forall>b r c k. r < hh \<and> c < ww' \<and> k < unit_nb_filters u \<longrightarrow>
            eval A P img lat n b r c k
              = spec_activation_unit A g (unit_nb_filters u) (eval A P img lat xW)
                  (map_option (eval A P img lat) (unit_v_map u))
                  (map_option (\<lambda>l. dense A (dense_kernel P (tag @ ''_dense_latent_'' @ str i))
                                 (dense_bias P (tag @ ''_dense_latent_'' @ str i)) (vec_dim l)
                                 (veval A P lat l)) (unit_h u)) b r c k)"
    by blast
next
  fix tag
  assume b: "stack_tag_of (unit_stack_name u) = Some tag
          \<and> (\<forall>l. unit_h u = Some l \<longrightarrow> 1 \<le> vec_dim l)"
  from unit_call_returns [OF assms, of tag i s] b
  show "\<exists>s''. (if g then GatedCNN_call u xW i else ReLUCNN_call u xW i) s
                   = (Inr (activation_node g u tag xW i), s'')"
    by blast
qed

theorem activation_unit_steps_witness:
  "\<exists>s1 s2.
     GatedCNN_call \<lparr>unit_nb_filters = 1, unit_stack_name = ''horizontal'',
        unit_v_map = Some (Input ''v'' 2 1 2),
        unit_h = Some (LatentInput ''latent_vector'' 3), unit_crop_right = True\<rparr>
        (Input ''x'' 2 2 2) 0 []
       = (Inr (activation_node True \<lparr>unit_nb_filters = 1, unit_stack_name = ''horizontal'',
            unit_v_map = Some (Input ''v'' 2 1 2),
            unit_h = Some (LatentInput ''latent_vector'' 3), unit_crop_right = True\<rparr>
            ''h'' (Input ''x'' 2 2 2) 0), s1)
     \<and> ReLUCNN_call \<lparr>unit_nb_filters = 1, unit_stack_name = ''horizontal'',
        unit_v_map = Some (Input ''v'' 2 1 1),
        unit_h = Some (LatentInput ''latent_vector'' 3), unit_crop_right = True\<rparr>
        (Input ''x'' 2 2 1) 0 []
       = (Inr (activation_node False \<lparr>unit_nb_filters = 1, unit_stack_name = ''horizontal'',
            unit_v_map = Some (Input ''v'' 2 1 1),
            unit_h = Some (LatentInput ''latent_vector'' 3), unit_crop_right = True\<rparr>
            ''h'' (Input ''x'' 2 2 1) 0), s2)
     \<and> shape_of (activation_node True \<lparr>unit_nb_filters = 1, unit_stack_name = ''horizontal'',
            unit_v_map = Some (Input ''v'' 2 1 2),
            unit_h = Some (LatentInput ''latent_vector'' 3), unit_crop_right = True\<rparr>
            ''h'' (Input ''x'' 2 2 2) 0) = Some (2, 1, 1)
     \<and> shape_of (activation_node False \<lparr>unit_nb_filters = 1, unit_stack_name = ''horizontal'',
            unit_v_map = Some (Input ''v'' 2 1 1),
            unit_h = Some (LatentInput ''latent_vector'' 3), unit_crop_right = True\<rparr>
            ''h'' (Input ''x'' 2 2 1) 0) = Some (2, 1, 1)"
proof -
  let ?ug = "\<lparr>unit_nb_filters = 1, unit_stack_name = ''horizontal'',
        unit_v_map = Some (Input ''v'' 2 1 2),
        unit_h = Some (LatentInput ''latent_vector'' 3), unit_crop_right = True\<rparr>"
  let ?ur = "\<lparr>unit_nb_filters = 1, unit_stack_name = ''horizontal'',
        unit_v_map = Some (Input ''v'' 2 1 1),
        unit_h = Some (LatentInput ''latent_vector'' 3), unit_crop_right = True\<rparr>"
  note G = activation_unit_steps [where g = True and u = ?ug and xW = "Input ''x'' 2 2 2"
      and i = 0 and s = "[]" and cw = 2 and ww' = 1 and ww = 2 and hh = 2
      and A = real_arith and P = example_params and img = example_img and lat = example_lat]
  note R = activation_unit_steps [where g = False and u = ?ur and xW = "Input ''x'' 2 2 1"
      and i = 0 and s = "[]" and cw = 1 and ww' = 1 and ww = 2 and hh = 2
      and A = real_arith and P = example_params and img = example_img and lat = example_lat]
  have t: "stack_tag_of ''horizontal'' = Some ''h''" by (simp add: stack_tag_of_def)
  obtain s1 where g1: "GatedCNN_call ?ug (Input ''x'' 2 2 2) 0 []
       = (Inr (activation_node True ?ug ''h'' (Input ''x'' 2 2 2) 0), s1)"
    using G [THEN conjunct2, THEN spec, of "''h''"] t by auto
  obtain s2 where r1: "ReLUCNN_call ?ur (Input ''x'' 2 2 1) 0 []
       = (Inr (activation_node False ?ur ''h'' (Input ''x'' 2 2 1) 0), s2)"
    using R [THEN conjunct2, THEN spec, of "''h''"] t by auto
  have g2: "shape_of (activation_node True ?ug ''h'' (Input ''x'' 2 2 2) 0) = Some (2, 1, 1)"
    using activation_unit_steps [where g = True and u = ?ug and xW = "Input ''x'' 2 2 2"
      and i = 0 and s = "[]" and cw = 2 and ww' = 1 and ww = 2 and hh = 2
      and A = real_arith and P = example_params and img = example_img and lat = example_lat
      and n = "activation_node True ?ug ''h'' (Input ''x'' 2 2 2) 0" and s' = s1] g1
    by auto
  have r2: "shape_of (activation_node False ?ur ''h'' (Input ''x'' 2 2 1) 0) = Some (2, 1, 1)"
    using activation_unit_steps [where g = False and u = ?ur and xW = "Input ''x'' 2 2 1"
      and i = 0 and s = "[]" and cw = 1 and ww' = 1 and ww = 2 and hh = 2
      and A = real_arith and P = example_params and img = example_img and lat = example_lat
      and n = "activation_node False ?ur ''h'' (Input ''x'' 2 2 1) 0" and s' = s2] r1
    by auto
  from g1 r1 g2 r2 show ?thesis by blast
qed

section \<open>Residual aggregation\<close>

text \<open>
  Claim C6. The first layer calls no residual addition and its horizontal output is the
  1 by 1 projection itself. Every later layer \<open>i\<close> calls exactly one, and its horizontal
  output is the \<^verbatim>\<open>Add\<close> of its own 1 by 1 projection and the horizontal output of the
  layer before, which evaluates to the elementwise sum of the two. A whole
  \<^verbatim>\<open>_build_layers\<close> run calls \<open>nb_pixelcnn_layers - 1\<close> residual additions, none
  for one layer, and threads them: what it returns is the three closing 1 by 1 convolutions
  applied to the horizontal output \<open>hN\<close> of the last layer, and the horizontal outputs
  read off \<open>hN\<close> are as many as the layers (one when the count is 0), entry 0 being the
  projection of layer 0 and every later entry \<open>i\<close> the residual addition of layer \<open>i\<close>'s
  projection, computed from entry \<open>i - 1\<close>, and entry \<open>i - 1\<close>.
\<close>

theorem residual_aggregation:
  "(first_layer self x s = (Inr st, s') \<longrightarrow>
      residual_count s' = residual_count s
      \<and> (\<exists>act. h_stack_out st
            = Conv2D (nb_filters self) 1 1 False (Some ''h_1x1_conv_0'') act))
   \<and> (next_layer self i prev s = (Inr st, s') \<longrightarrow>
      residual_count s' = residual_count s + 1
      \<and> (\<exists>proj act.
            proj = Conv2D (nb_filters self) 1 1 False (Some (''h_1x1_conv_'' @ str i)) act
          \<and> h_stack_out st = Add (''h_residual_'' @ str i) proj (h_stack_out prev)
          \<and> (\<forall>hh ww cc b r c k.
                shape_of proj = Some (hh, ww, cc)
                \<and> shape_of (h_stack_out prev) = Some (hh, ww, cc)
                \<and> r < hh \<and> c < ww \<and> k < cc \<longrightarrow>
                eval A P img lt (h_stack_out st) b r c k
                  = a_add A (eval A P img lt proj b r c k)
                      (eval A P img lt (h_stack_out prev) b r c k))))
   \<and> (build_layers self x lat w = (Inr (self', g), w') \<longrightarrow>
      residual_count (layer_calls w')
        = residual_count (layer_calls w) + (nb_pixelcnn_layers self - 1)
      \<and> (\<exists>hN. g = Conv2D (nb_channels self) 1 1 False
                    (Some (''conv2d_'' @ str (conv2d_uid w + 1)))
                    (Conv2D (nb_filters self) 1 1 True (Some (''penultimate_convs'' @ str 1))
                       (Conv2D (nb_filters self) 1 1 True (Some (''penultimate_convs'' @ str 0))
                          hN))
              \<and> length (horizontal_outputs hN) = max 1 (nb_pixelcnn_layers self)
              \<and> residual_chain (self\<lparr>h := lat\<rparr>) (horizontal_outputs hN)
              \<and> last (horizontal_outputs hN) = hN))"
proof (intro conjI impI)
  assume a: "first_layer self x s = (Inr st, s')"
  show "residual_count s' = residual_count s" by (rule residual_first_layer [OF a])
  show "\<exists>act. h_stack_out st = Conv2D (nb_filters self) 1 1 False (Some ''h_1x1_conv_0'') act"
    using first_layer_inv [OF a] by blast
next
  assume a: "next_layer self i prev s = (Inr st, s')"
  show "residual_count s' = residual_count s + 1" by (rule residual_next_layer [OF a])
  from next_layer_inv [OF a] obtain act where
    h: "h_stack_out st = Add (''h_residual_'' @ str i)
          (Conv2D (nb_filters self) 1 1 False (Some (''h_1x1_conv_'' @ str i)) act)
          (h_stack_out prev)"
    by blast
  show "\<exists>proj act.
            proj = Conv2D (nb_filters self) 1 1 False (Some (''h_1x1_conv_'' @ str i)) act
          \<and> h_stack_out st = Add (''h_residual_'' @ str i) proj (h_stack_out prev)
          \<and> (\<forall>hh ww cc b r c k.
                shape_of proj = Some (hh, ww, cc)
                \<and> shape_of (h_stack_out prev) = Some (hh, ww, cc)
                \<and> r < hh \<and> c < ww \<and> k < cc \<longrightarrow>
                eval A P img lt (h_stack_out st) b r c k
                  = a_add A (eval A P img lt proj b r c k)
                      (eval A P img lt (h_stack_out prev) b r c k))"
    apply (rule exI [of _ "Conv2D (nb_filters self) 1 1 False (Some (''h_1x1_conv_'' @ str i)) act"])
    apply (rule exI [of _ act])
    apply (simp only: h)
    apply (intro conjI allI impI refl)
    apply (simp only: eval.simps the_shape_def)
    apply (simp add: broadcast2_in_range)
    done
next
  assume a: "build_layers self x lat w = (Inr (self', g), w')"
  show "residual_count (layer_calls w')
        = residual_count (layer_calls w) + (nb_pixelcnn_layers self - 1)"
    by (rule residual_build_layers [OF a])
  show "\<exists>hN. g = Conv2D (nb_channels self) 1 1 False
                    (Some (''conv2d_'' @ str (conv2d_uid w + 1)))
                    (Conv2D (nb_filters self) 1 1 True (Some (''penultimate_convs'' @ str 1))
                       (Conv2D (nb_filters self) 1 1 True (Some (''penultimate_convs'' @ str 0))
                          hN))
              \<and> length (horizontal_outputs hN) = max 1 (nb_pixelcnn_layers self)
              \<and> residual_chain (self\<lparr>h := lat\<rparr>) (horizontal_outputs hN)
              \<and> last (horizontal_outputs hN) = hN"
    by (rule chain_build_layers [OF a])
qed

theorem residual_aggregation_witness:
  "\<exists>st s1 st2 s2 self3 g3 w3 hN proj self4 g4 w4 hN1 act.
     first_layer example_cfg (Input ''input_image'' 2 2 1) [] = (Inr st, s1)
     \<and> residual_count s1 = 0
     \<and> next_layer example_cfg 1 st s1 = (Inr st2, s2)
     \<and> residual_count s2 = 1
     \<and> build_layers example_cfg (Input ''input_image'' 2 2 1) None example_world
          = (Inr (self3, g3), w3)
     \<and> residual_count (layer_calls w3) = 1
     \<and> g3 = Conv2D 1 1 1 False (Some ''conv2d_1'')
              (Conv2D 1 1 1 True (Some ''penultimate_convs1'')
                 (Conv2D 1 1 1 True (Some ''penultimate_convs0'') hN))
     \<and> length (horizontal_outputs hN) = 2
     \<and> horizontal_outputs hN ! 1
         = Add ''h_residual_1'' (Conv2D 1 1 1 False (Some ''h_1x1_conv_1'') proj)
             (horizontal_outputs hN ! 0)
     \<and> horizontal_outputs hN ! 1 = hN
     \<and> build_layers (example_cfg\<lparr>nb_pixelcnn_layers := 1\<rparr>) (Input ''input_image'' 2 2 1) None
          example_world = (Inr (self4, g4), w4)
     \<and> residual_count (layer_calls w4) = 0
     \<and> g4 = Conv2D 1 1 1 False (Some ''conv2d_1'')
              (Conv2D 1 1 1 True (Some ''penultimate_convs1'')
                 (Conv2D 1 1 1 True (Some ''penultimate_convs0'') hN1))
     \<and> horizontal_outputs hN1 = [hN1]
     \<and> hN1 = Conv2D 1 1 1 False (Some ''h_1x1_conv_0'') act"
proof -
  obtain st s1 where a: "first_layer example_cfg (Input ''input_image'' 2 2 1) [] = (Inr st, s1)"
      "shape_of (v_stack_out st) = Some (2, 2, 1)"
      "shape_of (h_stack_out st) = Some (2, 2, 1)"
    using example_first_layer by blast
  obtain st2 s2 where b: "next_layer example_cfg 1 st s1 = (Inr st2, s2)"
    using example_next_layer [OF a(2,3), of s1] by blast
  obtain g3 w3 where c: "build_layers example_cfg (Input ''input_image'' 2 2 1) None
      example_world = (Inr (example_cfg\<lparr>h := None\<rparr>, g3), w3)"
    using build_layers_ok [OF example_input_shape,
        where self = example_cfg and lat = None and w = example_world]
    by (auto simp: example_cfg_def)
  obtain g4 w4 where d: "build_layers (example_cfg\<lparr>nb_pixelcnn_layers := 1\<rparr>)
      (Input ''input_image'' 2 2 1) None example_world
      = (Inr (example_cfg\<lparr>nb_pixelcnn_layers := 1, h := None\<rparr>, g4), w4)"
    using build_layers_ok [OF example_input_shape,
        where self = "example_cfg\<lparr>nb_pixelcnn_layers := 1\<rparr>" and lat = None
          and w = example_world]
    by (auto simp: example_cfg_def)
  have r0: "residual_count [] = 0" "residual_count (layer_calls example_world) = 0"
    by (simp_all add: residual_count_def example_world_def)
  note T = residual_aggregation [where A = real_arith and P = example_params
      and img = example_img and lt = example_lat and lat = None
      and x = "Input ''input_image'' 2 2 1" and i = 1 and prev = st]
  note T0 = T [where self = example_cfg and s = "[]" and st = st and s' = s1
      and w = example_world and self' = "example_cfg\<lparr>h := None\<rparr>" and g = g3 and w' = w3]
  from T0 a(1) r0 have 1: "residual_count s1 = 0" by simp
  from T [where self = example_cfg and s = s1 and st = st2 and s' = s2
      and w = example_world and self' = "example_cfg\<lparr>h := None\<rparr>" and g = g3 and w' = w3]
    b 1
  have 2: "residual_count s2 = 1" by simp
  from T0 c r0 have 3: "residual_count (layer_calls w3) = 1" by (simp add: example_cfg_def)
  from T0 c obtain hN where h:
      "g3 = Conv2D (nb_channels example_cfg) 1 1 False
              (Some (''conv2d_'' @ str (conv2d_uid example_world + 1)))
              (Conv2D (nb_filters example_cfg) 1 1 True (Some (''penultimate_convs'' @ str 1))
                 (Conv2D (nb_filters example_cfg) 1 1 True
                    (Some (''penultimate_convs'' @ str 0)) hN))"
      "length (horizontal_outputs hN) = max 1 (nb_pixelcnn_layers example_cfg)"
      "residual_chain (example_cfg\<lparr>h := None\<rparr>) (horizontal_outputs hN)"
      "last (horizontal_outputs hN) = hN"
    by blast
  have l2: "length (horizontal_outputs hN) = 2" using h(2) by (simp add: example_cfg_def)
  have g3: "g3 = Conv2D 1 1 1 False (Some ''conv2d_1'')
              (Conv2D 1 1 1 True (Some ''penultimate_convs1'')
                 (Conv2D 1 1 1 True (Some ''penultimate_convs0'') hN))"
    using h(1) by (simp add: example_cfg_def example_world_def str_small)
  from h(3) l2 obtain proj where p:
      "horizontal_outputs hN ! 1
         = Add ''h_residual_1'' (Conv2D 1 1 1 False (Some ''h_1x1_conv_1'') proj)
             (horizontal_outputs hN ! 0)"
    unfolding residual_chain_def by (auto simp: example_cfg_def str_small)
  have e: "horizontal_outputs hN ! 1 = hN"
    using h(4) l2 by (cases "horizontal_outputs hN") (auto simp: last_conv_nth)
  note T1 = T [where self = "example_cfg\<lparr>nb_pixelcnn_layers := 1\<rparr>" and s = "[]" and st = st
      and s' = s1 and w = example_world
      and self' = "example_cfg\<lparr>nb_pixelcnn_layers := 1, h := None\<rparr>" and g = g4 and w' = w4]
  from T1 d r0 have 4: "residual_count (layer_calls w4) = 0" by (simp add: example_cfg_def)
  from T1 d obtain hN1 where k:
      "g4 = Conv2D (nb_channels example_cfg) 1 1 False
              (Some (''conv2d_'' @ str (conv2d_uid example_world + 1)))
              (Conv2D (nb_filters example_cfg) 1 1 True (Some (''penultimate_convs'' @ str 1))
                 (Conv2D (nb_filters example_cfg) 1 1 True
                    (Some (''penultimate_convs'' @ str 0)) hN1))"
      "length (horizontal_outputs hN1) = 1"
      "residual_chain (example_cfg\<lparr>nb_pixelcnn_layers := 1, h := None\<rparr>)
         (horizontal_outputs hN1)"
      "last (horizontal_outputs hN1) = hN1"
    by (auto simp: example_cfg_def)
  have g4: "g4 = Conv2D 1 1 1 False (Some ''conv2d_1'')
              (Conv2D 1 1 1 True (Some ''penultimate_convs1'')
                 (Conv2D 1 1 1 True (Some ''penultimate_convs0'') hN1))"
    using k(1) by (simp add: example_cfg_def example_world_def str_small)
  have s1: "horizontal_outputs hN1 = [hN1]"
    using k(2,4) by (cases "horizontal_outputs hN1") auto
  from k(3) obtain act where a1: "hN1 = Conv2D 1 1 1 False (Some ''h_1x1_conv_0'') act"
    unfolding residual_chain_def s1 by (auto simp: example_cfg_def)
  from a(1) b c d 1 2 3 4 g3 l2 p e g4 s1 a1 show ?thesis by blast
qed

section \<open>Shape preservation\<close>

text \<open>
  Claim C7. Whenever \<^verbatim>\<open>build_model\<close> returns for odd kernel widths (odd kernel heights
  are not needed), the predicted tensor has the shape (H, W, C) of the input image, sample
  by sample, and in the first layer the horizontal map after crop-right has the shape of
  the vertical feed map it is merged with, so the widths line up. A build that returns has
  an image of at least one row and one column, at least one channel and one filter, a
  latent vector of at least one feature when conditional, and an optimizer name Keras knows;
  and for odd kernel widths these conditions are also enough for \<^verbatim>\<open>build_model\<close> to
  return.
\<close>

theorem shape_preservation:
  "(build_model self w = (Inr obj, w')
      \<and> odd (snd (filter_size_1st self)) \<and> odd (snd (filter_size self)) \<longrightarrow>
      1 \<le> fst (input_size self) \<and> 1 \<le> snd (input_size self)
      \<and> 1 \<le> nb_channels self \<and> 1 \<le> nb_filters self
      \<and> (conditional self \<longrightarrow> 1 \<le> latent_dim self)
      \<and> (\<exists>g. predicted obj = Some g
            \<and> shape_of g = Some (fst (input_size self), snd (input_size self), nb_channels self))
      \<and> (\<exists>st s''. first_layer (self\<lparr>h := h obj\<rparr>)
                  (Input ''input_image'' (fst (input_size self)) (snd (input_size self))
                     (nb_channels self)) (layer_calls w) = (Inr st, s'')
                \<and> shape_of (Lambda_crop_right ''h_crop_right_0'' (h_masked_map st))
                    = shape_of (v_feed_map st)
                \<and> shape_of (v_feed_map st)
                    = Some (fst (input_size self), snd (input_size self), my_nb_filters self)
                \<and> shape_of (v_stack_out st)
                    = Some (fst (input_size self), snd (input_size self), nb_filters self)))
   \<and> (1 \<le> fst (input_size self) \<and> 1 \<le> snd (input_size self)
      \<and> 1 \<le> nb_channels self \<and> 1 \<le> nb_filters self
      \<and> (conditional self \<longrightarrow> 1 \<le> latent_dim self)
      \<and> map lower_char (optimizer self) \<in> set optimizer_names
      \<and> odd (snd (filter_size_1st self)) \<and> odd (snd (filter_size self)) \<longrightarrow>
      (\<exists>obj g w'. build_model self w = (Inr obj, w') \<and> predicted obj = Some g
         \<and> model obj \<noteq> None
         \<and> shape_of g = Some (fst (input_size self), snd (input_size self), nb_channels self)))"
proof (intro conjI impI)
  assume a: "build_model self w = (Inr obj, w')
      \<and> odd (snd (filter_size_1st self)) \<and> odd (snd (filter_size self))"
  let ?x = "Input ''input_image'' (fst (input_size self)) (snd (input_size self))
              (nb_channels self)"
  have x: "shape_of ?x = Some (fst (input_size self), snd (input_size self), nb_channels self)"
    by simp
  from a have b: "build_model self w = (Inr obj, w')"
    and o1: "odd (snd (filter_size_1st self))" and o2: "odd (snd (filter_size self))"
    by simp_all
  from build_model_needs [OF b] o1
  have n: "1 \<le> fst (input_size self)" "1 \<le> snd (input_size self)" "1 \<le> nb_channels self"
      "1 \<le> nb_filters self" "conditional self \<Longrightarrow> 1 \<le> latent_dim self"
      "map lower_char (optimizer self) \<in> set optimizer_names"
    by simp_all
  show "1 \<le> fst (input_size self)" "1 \<le> snd (input_size self)" "1 \<le> nb_channels self"
      "1 \<le> nb_filters self"
    by (rule n)+
  show "1 \<le> latent_dim self" if "conditional self" using n(5) that .
  from build_model_ok [OF n o1 o2, of w] b
  show "\<exists>g. predicted obj = Some g
            \<and> shape_of g = Some (fst (input_size self), snd (input_size self), nb_channels self)"
    by auto
  from build_model_inv [OF b] have hl: "h obj = (if conditional self
      then Some (LatentInput ''latent_vector'' (latent_dim self)) else None)"
    by auto
  have l: "\<And>l. h (self\<lparr>h := h obj\<rparr>) = Some l \<Longrightarrow> 1 \<le> vec_dim l"
    using hl n(5) by (auto split: if_splits)
  have nb: "1 \<le> nb_filters (self\<lparr>h := h obj\<rparr>)" using n(4) by simp
  have od: "odd (snd (filter_size_1st (self\<lparr>h := h obj\<rparr>)))" using o1 by simp
  from first_layer_ok [OF x n(1,2,3) nb l od, of "layer_calls w"]
  show "\<exists>st s''. first_layer (self\<lparr>h := h obj\<rparr>) ?x (layer_calls w) = (Inr st, s'')
                \<and> shape_of (Lambda_crop_right ''h_crop_right_0'' (h_masked_map st))
                    = shape_of (v_feed_map st)
                \<and> shape_of (v_feed_map st)
                    = Some (fst (input_size self), snd (input_size self), my_nb_filters self)
                \<and> shape_of (v_stack_out st)
                    = Some (fst (input_size self), snd (input_size self), nb_filters self)"
    by (auto simp: my_nb_filters_def)
next
  assume a: "1 \<le> fst (input_size self) \<and> 1 \<le> snd (input_size self)
      \<and> 1 \<le> nb_channels self \<and> 1 \<le> nb_filters self
      \<and> (conditional self \<longrightarrow> 1 \<le> latent_dim self)
      \<and> map lower_char (optimizer self) \<in> set optimizer_names
      \<and> odd (snd (filter_size_1st self)) \<and> odd (snd (filter_size self))"
  then have n: "1 \<le> fst (input_size self)" "1 \<le> snd (input_size self)" "1 \<le> nb_channels self"
      "1 \<le> nb_filters self" "conditional self \<Longrightarrow> 1 \<le> latent_dim self"
      "map lower_char (optimizer self) \<in> set optimizer_names"
      "odd (snd (filter_size_1st self))" "odd (snd (filter_size self))"
    by simp_all
  show "\<exists>obj g w'. build_model self w = (Inr obj, w') \<and> predicted obj = Some g
         \<and> model obj \<noteq> None
         \<and> shape_of g = Some (fst (input_size self), snd (input_size self), nb_channels self)"
    by (rule build_model_ok [OF n])
qed

theorem shape_preservation_witness:
  "1 \<le> fst (input_size example_cfg) \<and> 1 \<le> snd (input_size example_cfg)
   \<and> 1 \<le> nb_channels example_cfg \<and> 1 \<le> nb_filters example_cfg
   \<and> 1 \<le> latent_dim example_cfg
   \<and> map lower_char (optimizer example_cfg) \<in> set optimizer_names
   \<and> odd (snd (filter_size_1st example_cfg)) \<and> odd (snd (filter_size example_cfg))
   \<and> (\<exists>obj g w'. build_model example_cfg example_world = (Inr obj, w')
         \<and> predicted obj = Some g \<and> shape_of g = Some (2, 2, 1)
         \<and> (\<exists>st s''. first_layer (example_cfg\<lparr>h := h obj\<rparr>) (Input ''input_image'' 2 2 1) []
                         = (Inr st, s'')
               \<and> shape_of (Lambda_crop_right ''h_crop_right_0'' (h_masked_map st))
                   = Some (2, 2, 2)
               \<and> shape_of (v_feed_map st) = Some (2, 2, 2)
               \<and> shape_of (v_stack_out st) = Some (2, 2, 1)))"
proof -
  have c: "1 \<le> fst (input_size example_cfg) \<and> 1 \<le> snd (input_size example_cfg)
      \<and> 1 \<le> nb_channels example_cfg \<and> 1 \<le> nb_filters example_cfg
      \<and> 1 \<le> latent_dim example_cfg
      \<and> map lower_char (optimizer example_cfg) \<in> set optimizer_names
      \<and> odd (snd (filter_size_1st example_cfg)) \<and> odd (snd (filter_size example_cfg))"
    using example_optimizer by (simp add: example_cfg_def)
  from shape_preservation [where self = example_cfg and w = example_world
      and obj = example_cfg and w' = example_world] c
  obtain obj g w' where b: "build_model example_cfg example_world = (Inr obj, w')"
    by blast
  from shape_preservation [where self = example_cfg and w = example_world
      and obj = obj and w' = w'] b c
  have "(\<exists>g. predicted obj = Some g
            \<and> shape_of g = Some (fst (input_size example_cfg), snd (input_size example_cfg),
                 nb_channels example_cfg))
      \<and> (\<exists>st s''. first_layer (example_cfg\<lparr>h := h obj\<rparr>)
                  (Input ''input_image'' (fst (input_size example_cfg))
                     (snd (input_size example_cfg)) (nb_channels example_cfg))
                  (layer_calls example_world) = (Inr st, s'')
                \<and> shape_of (Lambda_crop_right ''h_crop_right_0'' (h_masked_map st))
                    = shape_of (v_feed_map st)
                \<and> shape_of (v_feed_map st)
                    = Some (fst (input_size example_cfg), snd (input_size example_cfg),
                         my_nb_filters example_cfg)
                \<and> shape_of (v_stack_out st)
                    = Some (fst (input_size example_cfg), snd (input_size example_cfg),
                         nb_filters example_cfg))"
    by blast
  then have "(\<exists>g. predicted obj = Some g \<and> shape_of g = Some (2, 2, 1))
      \<and> (\<exists>st s''. first_layer (example_cfg\<lparr>h := h obj\<rparr>) (Input ''input_image'' 2 2 1) []
                         = (Inr st, s'')
               \<and> shape_of (Lambda_crop_right ''h_crop_right_0'' (h_masked_map st))
                   = Some (2, 2, 2)
               \<and> shape_of (v_feed_map st) = Some (2, 2, 2)
               \<and> shape_of (v_stack_out st) = Some (2, 2, 1))"
    by (simp add: example_cfg_def example_world_def my_nb_filters_def del: shape_of.simps)
      metis
  with b c show ?thesis by blast
qed

section \<open>The inference method on a built model\<close>

text \<open>
  Claim C8. \<^verbatim>\<open>predict\<close> called on a model that was built, and so has its \<^verbatim>\<open>model\<close>
  attribute, raises \<^verbatim>\<open>AttributeError\<close> instead of returning the predicted tensor: the
  method looks \<^verbatim>\<open>model\<close> up on the class.
\<close>

theorem predict_on_built_model_raises:
  "\<exists>obj s'. build_model example_cfg example_world = (Inr obj, s') \<and> model obj \<noteq> None
     \<and> predict real_arith P obj (x, lat) 1 = Inl (AttributeError ''model'')"
  using example_build
  by (auto simp: predict_def getattr_model_def)

section \<open>What construction does to the world\<close>







section \<open>An unrecognised stack kind\<close>

text \<open>
  Neither builder checks its stack kind: the \<^verbatim>\<open>if/elif\<close> chains have no \<^verbatim>\<open>else\<close>, and the
  failure is Python's, at the first use of the variable that no branch assigned.
\<close>

lemma GatedCNN_unknown_stack:
  assumes "stack_tag_of (unit_stack_name u) = None"
  shows "GatedCNN_call u xW i calls =
     (let x1 = (if unit_crop_right u
                then Lambda_crop_right (''h_crop_right_'' @ str i) xW else xW);
          after_crop = (if unit_crop_right u then calls @ [T4 x1] else calls)
      in if unit_crop_right u \<and> shape_of x1 = None then (Inl ValueError, calls)
         else (case unit_v_map u of
                 None \<Rightarrow> (Inl (UnboundLocalError ''stack_tag''), after_crop)
               | Some v \<Rightarrow>
                   if shape_of (Add (''h_merge_v_'' @ str i) x1 v) = None
                   then (Inl ValueError, after_crop)
                   else (Inl (UnboundLocalError ''stack_tag''),
                         after_crop @ [T4 (Add (''h_merge_v_'' @ str i) x1 v)])))"
  using assms
  by (cases "unit_v_map u"; cases "unit_h u"; cases "unit_crop_right u")
     (auto simp: GatedCNN_call_def bind_def call_layer_def local_var_def raise_def ret_def
        Let_def split: option.splits)

lemma ReLUCNN_unknown_stack:
  assumes "stack_tag_of (unit_stack_name u) = None"
  shows "ReLUCNN_call u xW i calls =
     (let x1 = (if unit_crop_right u
                then Lambda_crop_right (''h_crop_right_'' @ str i) xW else xW);
          after_crop = (if unit_crop_right u then calls @ [T4 x1] else calls)
      in if unit_crop_right u \<and> shape_of x1 = None then (Inl ValueError, calls)
         else (case unit_v_map u of
                 None \<Rightarrow> (Inl (UnboundLocalError ''stack_tag''), after_crop)
               | Some v \<Rightarrow>
                   if shape_of (Add (''h_merge_v_'' @ str i) x1 v) = None
                   then (Inl ValueError, after_crop)
                   else (Inl (UnboundLocalError ''stack_tag''),
                         after_crop @ [T4 (Add (''h_merge_v_'' @ str i) x1 v)])))"
  using assms
  by (cases "unit_v_map u"; cases "unit_h u"; cases "unit_crop_right u")
     (auto simp: ReLUCNN_call_def bind_def call_layer_def local_var_def raise_def ret_def
        Let_def split: option.splits)

text \<open>
  Claim C10, as the code has it. With a stack kind that is neither \<^verbatim>\<open>'vertical'\<close> nor
  \<^verbatim>\<open>'horizontal'\<close>, the masked-convolution builder raises \<^verbatim>\<open>UnboundLocalError\<close> for
  \<^verbatim>\<open>res\<close> with no layer called. An activation unit, gated or ReLU, never returns either,
  but it first calls the crop-right layer and then the vertical-feed merge it was asked
  for. When one of the two calls is refused for its shapes, the unit raises
  \<^verbatim>\<open>ValueError\<close> there, with the calls made before it. Otherwise it raises
  \<^verbatim>\<open>UnboundLocalError\<close> for \<^verbatim>\<open>stack_tag\<close> right after them, these one or two calls
  being all it made; asked for neither, it has called no layer.
\<close>

theorem unknown_stack_kind:
  assumes "stack_name \<noteq> ''vertical''" and "stack_name \<noteq> ''horizontal''"
    and "unit_stack_name u = stack_name"
  shows "masked_conv self x ksz stack_name i mask_type calls
           = (Inl (UnboundLocalError ''res''), calls)
       \<and> GatedCNN_call u xW i calls =
           (let x1 = (if unit_crop_right u
                      then Lambda_crop_right (''h_crop_right_'' @ str i) xW else xW);
                after_crop = (if unit_crop_right u then calls @ [T4 x1] else calls)
            in if unit_crop_right u \<and> shape_of x1 = None then (Inl ValueError, calls)
               else (case unit_v_map u of
                       None \<Rightarrow> (Inl (UnboundLocalError ''stack_tag''), after_crop)
                     | Some v \<Rightarrow>
                         if shape_of (Add (''h_merge_v_'' @ str i) x1 v) = None
                         then (Inl ValueError, after_crop)
                         else (Inl (UnboundLocalError ''stack_tag''),
                               after_crop @ [T4 (Add (''h_merge_v_'' @ str i) x1 v)])))
       \<and> ReLUCNN_call u xW i calls = GatedCNN_call u xW i calls"
proof -
  have t: "stack_tag_of (unit_stack_name u) = None"
    using assms by (simp add: stack_tag_of_def)
  have "masked_conv self x ksz stack_name i mask_type calls
           = (Inl (UnboundLocalError ''res''), calls)"
    using assms(1,2) by (simp add: masked_conv_def bind_def ret_def local_var_def raise_def)
  moreover note GatedCNN_unknown_stack [OF t, of xW i calls]
  moreover have "ReLUCNN_call u xW i calls = GatedCNN_call u xW i calls"
    by (simp only: GatedCNN_unknown_stack [OF t] ReLUCNN_unknown_stack [OF t])
  ultimately show ?thesis by (intro conjI)
qed

theorem unknown_stack_kind_witness:
  "''diagonal'' \<noteq> ''vertical'' \<and> ''diagonal'' \<noteq> ''horizontal''
   \<and> masked_conv example_cfg (Input ''x'' 2 2 2) (3, 3) ''diagonal'' 0 ''B'' []
        = (Inl (UnboundLocalError ''res''), [])
   \<and> GatedCNN_call \<lparr>unit_nb_filters = 1, unit_stack_name = ''diagonal'',
          unit_v_map = Some (Input ''v'' 2 1 2), unit_h = Some (LatentInput ''latent_vector'' 3),
          unit_crop_right = True\<rparr> (Input ''x'' 2 2 2) 0 []
        = (Inl (UnboundLocalError ''stack_tag''),
           [T4 (Lambda_crop_right ''h_crop_right_0'' (Input ''x'' 2 2 2)),
            T4 (Add ''h_merge_v_0'' (Lambda_crop_right ''h_crop_right_0'' (Input ''x'' 2 2 2))
                  (Input ''v'' 2 1 2))])
   \<and> ReLUCNN_call \<lparr>unit_nb_filters = 1, unit_stack_name = ''diagonal'',
          unit_v_map = Some (Input ''v'' 2 1 2), unit_h = Some (LatentInput ''latent_vector'' 3),
          unit_crop_right = True\<rparr> (Input ''x'' 2 2 2) 0 []
        = (Inl (UnboundLocalError ''stack_tag''),
           [T4 (Lambda_crop_right ''h_crop_right_0'' (Input ''x'' 2 2 2)),
            T4 (Add ''h_merge_v_0'' (Lambda_crop_right ''h_crop_right_0'' (Input ''x'' 2 2 2))
                  (Input ''v'' 2 1 2))])
   \<and> GatedCNN_call \<lparr>unit_nb_filters = 1, unit_stack_name = ''diagonal'',
          unit_v_map = Some (Input ''v'' 2 3 2), unit_h = None,
          unit_crop_right = False\<rparr> (Input ''x'' 2 2 2) 0 []
        = (Inl ValueError, [])"
proof -
  note T = unknown_stack_kind [where stack_name = "''diagonal''" and self = example_cfg
      and x = "Input ''x'' 2 2 2" and ksz = "(3, 3)" and i = 0 and mask_type = "''B''"
      and calls = "[]" and xW = "Input ''x'' 2 2 2"]
  have a: "''diagonal'' \<noteq> ''vertical''" "''diagonal'' \<noteq> ''horizontal''" by simp_all
  from T [where u = "\<lparr>unit_nb_filters = 1, unit_stack_name = ''diagonal'',
          unit_v_map = Some (Input ''v'' 2 1 2), unit_h = Some (LatentInput ''latent_vector'' 3),
          unit_crop_right = True\<rparr>"]
  have 1: "masked_conv example_cfg (Input ''x'' 2 2 2) (3, 3) ''diagonal'' 0 ''B'' []
        = (Inl (UnboundLocalError ''res''), [])"
    and 2: "GatedCNN_call \<lparr>unit_nb_filters = 1, unit_stack_name = ''diagonal'',
          unit_v_map = Some (Input ''v'' 2 1 2), unit_h = Some (LatentInput ''latent_vector'' 3),
          unit_crop_right = True\<rparr> (Input ''x'' 2 2 2) 0 []
        = (Inl (UnboundLocalError ''stack_tag''),
           [T4 (Lambda_crop_right ''h_crop_right_0'' (Input ''x'' 2 2 2)),
            T4 (Add ''h_merge_v_0'' (Lambda_crop_right ''h_crop_right_0'' (Input ''x'' 2 2 2))
                  (Input ''v'' 2 1 2))])"
    and 3: "ReLUCNN_call \<lparr>unit_nb_filters = 1, unit_stack_name = ''diagonal'',
          unit_v_map = Some (Input ''v'' 2 1 2), unit_h = Some (LatentInput ''latent_vector'' 3),
          unit_crop_right = True\<rparr> (Input ''x'' 2 2 2) 0 []
        = GatedCNN_call \<lparr>unit_nb_filters = 1, unit_stack_name = ''diagonal'',
          unit_v_map = Some (Input ''v'' 2 1 2), unit_h = Some (LatentInput ''latent_vector'' 3),
          unit_crop_right = True\<rparr> (Input ''x'' 2 2 2) 0 []"
    by (simp_all add: Let_def str_small broadcast_shape_def broadcast_dim_def)
  from T [where u = "\<lparr>unit_nb_filters = 1, unit_stack_name = ''diagonal'',
          unit_v_map = Some (Input ''v'' 2 3 2), unit_h = None, unit_crop_right = False\<rparr>"]
  have 4: "GatedCNN_call \<lparr>unit_nb_filters = 1, unit_stack_name = ''diagonal'',
          unit_v_map = Some (Input ''v'' 2 3 2), unit_h = None,
          unit_crop_right = False\<rparr> (Input ''x'' 2 2 2) 0 []
        = (Inl ValueError, [])"
    by (simp add: Let_def str_small broadcast_shape_def broadcast_dim_def)
  from a 1 2 3 4 show ?thesis by simp
qed

text \<open>
  Claim C10 as stated fails: a gated unit with crop-right set calls the crop layer before it
  raises.
\<close>

theorem unknown_stack_kind_counterexample:
  "GatedCNN_call \<lparr>unit_nb_filters = 1, unit_stack_name = ''diagonal'', unit_v_map = None,
       unit_h = None, unit_crop_right = True\<rparr> (Input ''x'' 2 2 2) 0 []
     = (Inl (UnboundLocalError ''stack_tag''),
        [T4 (Lambda_crop_right ''h_crop_right_0'' (Input ''x'' 2 2 2))])"
  by (simp add: GatedCNN_call_def bind_def call_layer_def local_var_def raise_def ret_def
        Let_def stack_tag_of_def str.simps digit_char_def)

end
